theory Spec2Isabelle
  imports Complex_Main
begin

section \<open>JavaScript numbers\<close>

text \<open>
  The calculators of the site compute on JavaScript numbers. A number is modelled as a
  finite real or one of the three special values of IEEE 754 arithmetic. The rounding of
  finite results to the nearest double and the sign of zero are not modelled: \<open>Fin r\<close>
  stands for the double obtained from the exact value \<open>r\<close>, and \<open>Fin 0\<close> for the
  positive zero. A finite result whose magnitude reaches the overflow threshold of
  round-to-nearest is the infinity of its sign, as in IEEE 754.
\<close>

datatype jsnum = Fin real | PInf | NInf | NaN

definition overflow_threshold :: real where
  "overflow_threshold = 2 ^ 1024 - 2 ^ 970"

definition rnd :: "real \<Rightarrow> jsnum" where
  "rnd r = (if overflow_threshold \<le> r then PInf
            else if r \<le> - overflow_threshold then NInf
            else Fin r)"

fun jneg :: "jsnum \<Rightarrow> jsnum" where
  "jneg (Fin a) = Fin (- a)"
| "jneg PInf = NInf"
| "jneg NInf = PInf"
| "jneg NaN = NaN"

fun jadd :: "jsnum \<Rightarrow> jsnum \<Rightarrow> jsnum" where
  "jadd NaN _ = NaN"
| "jadd _ NaN = NaN"
| "jadd (Fin a) (Fin b) = rnd (a + b)"
| "jadd PInf NInf = NaN"
| "jadd NInf PInf = NaN"
| "jadd PInf _ = PInf"
| "jadd _ PInf = PInf"
| "jadd NInf _ = NInf"
| "jadd _ NInf = NInf"

definition jsub :: "jsnum \<Rightarrow> jsnum \<Rightarrow> jsnum" where
  "jsub a b = jadd a (jneg b)"

text \<open>The sign of a number that is not NaN, as \<open>-1\<close>, \<open>0\<close> or \<open>1\<close>.\<close>

fun jsign :: "jsnum \<Rightarrow> int" where
  "jsign (Fin a) = (if a < 0 then - 1 else if a = 0 then 0 else 1)"
| "jsign PInf = 1"
| "jsign NInf = - 1"
| "jsign NaN = 0"

definition signed_inf :: "int \<Rightarrow> jsnum" where
  "signed_inf s = (if s < 0 then NInf else PInf)"

fun jmul :: "jsnum \<Rightarrow> jsnum \<Rightarrow> jsnum" where
  "jmul NaN _ = NaN"
| "jmul _ NaN = NaN"
| "jmul (Fin a) (Fin b) = rnd (a * b)"
| "jmul x y = (if jsign x = 0 \<or> jsign y = 0 then NaN else signed_inf (jsign x * jsign y))"

fun jdiv :: "jsnum \<Rightarrow> jsnum \<Rightarrow> jsnum" where
  "jdiv NaN _ = NaN"
| "jdiv _ NaN = NaN"
| "jdiv (Fin a) (Fin b) =
     (if b = 0 then (if a = 0 then NaN else signed_inf (jsign (Fin a))) else rnd (a / b))"
| "jdiv (Fin a) _ = Fin 0"
| "jdiv x (Fin b) = signed_inf (jsign x * (if b < 0 then - 1 else 1))"
| "jdiv _ _ = NaN"

text \<open>The comparison \<open>a > b\<close>: false as soon as one side is NaN.\<close>

fun jgt :: "jsnum \<Rightarrow> jsnum \<Rightarrow> bool" where
  "jgt NaN _ = False"
| "jgt _ NaN = False"
| "jgt (Fin a) (Fin b) = (a > b)"
| "jgt PInf PInf = False"
| "jgt PInf _ = True"
| "jgt _ PInf = False"
| "jgt NInf _ = False"
| "jgt _ NInf = True"

definition jlt :: "jsnum \<Rightarrow> jsnum \<Rightarrow> bool" where
  "jlt a b = jgt b a"

fun jge :: "jsnum \<Rightarrow> jsnum \<Rightarrow> bool" where
  "jge NaN _ = False"
| "jge _ NaN = False"
| "jge a b = (\<not> jgt b a)"

text \<open>Strict equality \<open>===\<close> on numbers: NaN equals nothing.\<close>

fun jeq :: "jsnum \<Rightarrow> jsnum \<Rightarrow> bool" where
  "jeq NaN _ = False"
| "jeq _ NaN = False"
| "jeq a b = (a = b)"

text \<open>Truthiness of a number: zero and NaN are falsy.\<close>

fun truthy :: "jsnum \<Rightarrow> bool" where
  "truthy (Fin a) = (a \<noteq> 0)"
| "truthy NaN = False"
| "truthy _ = True"

text \<open>
  A property that may be missing is an option, \<open>None\<close> for \<open>undefined\<close>.
  \<open>or_else a b\<close> and \<open>or_num a b\<close> are \<open>a || b\<close> for a number \<open>b\<close>; \<open>to_number\<close> is the
  conversion of arithmetic, which turns \<open>undefined\<close> into NaN.
\<close>

definition or_else :: "jsnum \<Rightarrow> jsnum \<Rightarrow> jsnum" where
  "or_else a b = (if truthy a then a else b)"

definition or_num :: "jsnum option \<Rightarrow> jsnum \<Rightarrow> jsnum" where
  "or_num a b = (case a of None \<Rightarrow> b | Some x \<Rightarrow> or_else x b)"

definition to_number :: "jsnum option \<Rightarrow> jsnum" where
  "to_number a = (case a of None \<Rightarrow> NaN | Some x \<Rightarrow> x)"

text \<open>\<open>Math.round\<close>: the integer nearest to the argument, a tie going up.\<close>

fun Math_round :: "jsnum \<Rightarrow> jsnum" where
  "Math_round (Fin a) = Fin (of_int \<lfloor>a + 1 / 2\<rfloor>)"
| "Math_round x = x"

fun Math_sqrt :: "jsnum \<Rightarrow> jsnum" where
  "Math_sqrt (Fin a) = (if a < 0 then NaN else Fin (sqrt a))"
| "Math_sqrt PInf = PInf"
| "Math_sqrt _ = NaN"

text \<open>
  \<open>Math.min(...xs)\<close> and \<open>Math.max(...xs)\<close>: the infinity of the neutral sign for no
  argument, NaN as soon as one argument is NaN.
\<close>

fun jmin2 :: "jsnum \<Rightarrow> jsnum \<Rightarrow> jsnum" where
  "jmin2 NaN _ = NaN"
| "jmin2 _ NaN = NaN"
| "jmin2 a b = (if jgt a b then b else a)"

fun jmax2 :: "jsnum \<Rightarrow> jsnum \<Rightarrow> jsnum" where
  "jmax2 NaN _ = NaN"
| "jmax2 _ NaN = NaN"
| "jmax2 a b = (if jgt b a then b else a)"

definition Math_min :: "jsnum list \<Rightarrow> jsnum" where
  "Math_min xs = foldl jmin2 PInf xs"

definition Math_max :: "jsnum list \<Rightarrow> jsnum" where
  "Math_max xs = foldl jmax2 NInf xs"

text \<open>The property the calculators are to keep: a finite number that is not negative.\<close>

fun nonneg_finite :: "jsnum \<Rightarrow> bool" where
  "nonneg_finite (Fin a) = (0 \<le> a)"
| "nonneg_finite _ = False"

fun is_finite :: "jsnum \<Rightarrow> bool" where
  "is_finite (Fin a) = True"
| "is_finite _ = False"

section \<open>Fetched data\<close>

text \<open>
  Every chapter loads static JSON files with \<open>fetch\<close> and \<open>response.json()\<close> inside a
  \<open>try\<close> block. The promise of \<open>fetch\<close> may reject (no network), the promise of
  \<open>json()\<close> may reject (the body is not JSON), or the body parses to a value, which may
  be \<open>null\<close>. Reading a property of \<open>null\<close> or \<open>undefined\<close> throws a TypeError.
  A parsed object is a record whose properties may each be missing.
\<close>

datatype js_error = NetworkError | SyntaxError | TypeError

datatype 'a fetched = FetchRejected | JsonRejected | Json "'a option"

definition await_json :: "'a fetched \<Rightarrow> js_error + 'a option" where
  "await_json f = (case f of
       FetchRejected \<Rightarrow> Inl NetworkError
     | JsonRejected \<Rightarrow> Inl SyntaxError
     | Json v \<Rightarrow> Inr v)"

definition deref :: "'a option \<Rightarrow> js_error + 'a" where
  "deref v = (case v of None \<Rightarrow> Inl TypeError | Some x \<Rightarrow> Inr x)"

definition try_bind :: "'e + 'a \<Rightarrow> ('a \<Rightarrow> 'e + 'b) \<Rightarrow> 'e + 'b" where
  "try_bind m f = (case m of Inl e \<Rightarrow> Inl e | Inr x \<Rightarrow> f x)"

record summary_json =
  total_commuters :: "jsnum option"
  avg_commute_minutes :: "jsnum option"
  annual_hours_lost :: "jsnum option"
  sum_transit_pct :: "jsnum option"
  sum_wfh_pct :: "jsnum option"
  sum_bike_walk_pct :: "jsnum option"

record mode_split_json =
  ms_drive_alone_pct :: "jsnum option"
  ms_transit_pct :: "jsnum option"
  ms_wfh_pct :: "jsnum option"

record scenario_json =
  emissions_tons :: "jsnum option"
  mode_split :: "mode_split_json option"

record scenarios_json =
  current :: "scenario_json option"

text \<open>An entry of the console: the message of \<open>console.error\<close> and the error caught.\<close>

type_synonym console_entry = "string \<times> js_error"

text \<open>
  What a chapter shows at the top level of its markup: the loading paragraph, a paragraph
  telling the reader that the data could not be loaded, or the content of the chapter.
\<close>

datatype view = LoadingState | CouldNotLoadMessage | ChapterContent

section \<open>Chapter 1: the personal calculator\<close>

record pa_stats =
  totalCommuters :: "jsnum option"
  avgCommuteMinutes :: "jsnum option"
  annualHoursLost :: "jsnum option"
  annualCO2Tons :: "jsnum option"
  carsEquivalent :: jsnum
  avgCO2PerPerson :: jsnum

text \<open>
  The state of the component: its variables, the timeouts it has set (delay in
  milliseconds and the animation step the callback assigns) and what it has logged.
\<close>

record chapter1 =
  PA_STATS :: pa_stats
  userCommuteMinutes :: jsnum
  animationStep :: nat
  c1_dataLoaded :: bool
  c1_timeouts :: "(nat \<times> nat) list"
  c1_console :: "console_entry list"

definition chapter1_init :: chapter1 where
  "chapter1_init =
     \<lparr> PA_STATS = \<lparr> totalCommuters = Some (Fin 0), avgCommuteMinutes = Some (Fin 0),
                      annualHoursLost = Some (Fin 0), annualCO2Tons = Some (Fin 0),
                      carsEquivalent = Fin 0, avgCO2PerPerson = Fin 0 \<rparr>,
       userCommuteMinutes = Fin 27, animationStep = 0, c1_dataLoaded = False,
       c1_timeouts = [], c1_console = [] \<rparr>"

definition animation_sequence :: "(nat \<times> nat) list" where
  "animation_sequence = [(500, 1), (2000, 2), (4000, 3), (6000, 4)]"

text \<open>The body of the \<open>try\<close> block: the statistics it builds, or the error thrown.\<close>

definition chapter1_load ::
  "summary_json fetched \<Rightarrow> scenarios_json fetched \<Rightarrow> js_error + pa_stats" where
  "chapter1_load summaryResponse scenariosResponse =
     try_bind (await_json summaryResponse) (\<lambda>summaryData.
     try_bind (await_json scenariosResponse) (\<lambda>scenariosData.
     try_bind (deref summaryData) (\<lambda>summary.
     try_bind (deref scenariosData) (\<lambda>scenarios.
     try_bind (deref (current scenarios)) (\<lambda>cur.
       let totalCommuters' = total_commuters summary;
           annualCO2Tons' = emissions_tons cur;
           avgCO2PerPerson' = jdiv (to_number annualCO2Tons') (to_number totalCommuters');
           carsEquivalent' = Math_round (jdiv (to_number annualCO2Tons') (Fin 4.6))
       in Inr \<lparr> totalCommuters = total_commuters summary,
                 avgCommuteMinutes = avg_commute_minutes summary,
                 annualHoursLost = annual_hours_lost summary,
                 annualCO2Tons = annualCO2Tons',
                 carsEquivalent = carsEquivalent',
                 avgCO2PerPerson = avgCO2PerPerson' \<rparr>)))))"

definition chapter1_fallback :: pa_stats where
  "chapter1_fallback =
     \<lparr> totalCommuters = Some (Fin 6179069), avgCommuteMinutes = Some (Fin 9.9),
       annualHoursLost = Some (Fin 509773192), annualCO2Tons = Some (Fin 2166258),
       carsEquivalent = Fin 470000, avgCO2PerPerson = Fin 0.35 \<rparr>"

definition chapter1_onMount ::
  "summary_json fetched \<Rightarrow> scenarios_json fetched \<Rightarrow> chapter1 \<Rightarrow> chapter1" where
  "chapter1_onMount summaryResponse scenariosResponse s =
     (case chapter1_load summaryResponse scenariosResponse of
        Inr stats \<Rightarrow>
          s\<lparr> PA_STATS := stats,
             userCommuteMinutes := Math_round (to_number (avgCommuteMinutes stats)),
             c1_dataLoaded := True,
             c1_timeouts := c1_timeouts s @ animation_sequence \<rparr>
      | Inl error \<Rightarrow>
          s\<lparr> c1_console := c1_console s @ [(''Error loading PA data:'', error)],
             PA_STATS := chapter1_fallback,
             c1_dataLoaded := True,
             c1_timeouts := c1_timeouts s @ animation_sequence \<rparr>)"

definition chapter1_view :: "chapter1 \<Rightarrow> view" where
  "chapter1_view s = (if \<not> c1_dataLoaded s then LoadingState else ChapterContent)"

text \<open>The reactive declarations, recomputed from the slider value.\<close>

definition userAnnualHours :: "chapter1 \<Rightarrow> jsnum" where
  "userAnnualHours s =
     jdiv (jmul (jmul (jmul (userCommuteMinutes s) (Fin 2)) (Fin 5)) (Fin 50)) (Fin 60)"

definition userAnnualCO2 :: "chapter1 \<Rightarrow> jsnum" where
  "userAnnualCO2 s =
     jdiv (jdiv (jmul (jmul (jmul (jmul (userCommuteMinutes s) (Fin 0.5)) (Fin 2)) (Fin 250))
                      (Fin 8.887)) (Fin 25)) (Fin 1000)"

section \<open>Chapter 6: the scenario calculator\<close>

datatype CommuteMode = drive_alone | transit | bike_walk | carpool | wfh

fun EMISSIONS_PER_MODE :: "CommuteMode \<Rightarrow> jsnum" where
  "EMISSIONS_PER_MODE drive_alone = Fin 2580"
| "EMISSIONS_PER_MODE transit = Fin 580"
| "EMISSIONS_PER_MODE bike_walk = Fin 0"
| "EMISSIONS_PER_MODE carpool = Fin 1290"
| "EMISSIONS_PER_MODE wfh = Fin 0"

definition COST_PER_MILE :: jsnum where
  "COST_PER_MILE = Fin 0.67"

definition AVG_SPEED_MPH :: jsnum where
  "AVG_SPEED_MPH = Fin 30"

record chapter6 =
  c6_dataLoaded :: bool
  paAvgCO2PerPerson :: jsnum
  commuteMinutes :: jsnum
  currentMode :: CommuteMode
  daysPerWeek :: jsnum
  c6_console :: "console_entry list"

definition chapter6_init :: chapter6 where
  "chapter6_init =
     \<lparr> c6_dataLoaded = False, paAvgCO2PerPerson = Fin 2.6, commuteMinutes = Fin 30,
       currentMode = drive_alone, daysPerWeek = Fin 5, c6_console = [] \<rparr>"

definition commuteDistance :: "chapter6 \<Rightarrow> jsnum" where
  "commuteDistance s = jmul (jdiv (commuteMinutes s) (Fin 60)) AVG_SPEED_MPH"

definition dailyMiles :: "chapter6 \<Rightarrow> jsnum" where
  "dailyMiles s = jmul (commuteDistance s) (Fin 2)"

definition annualMiles :: "chapter6 \<Rightarrow> jsnum" where
  "annualMiles s = jmul (jmul (dailyMiles s) (daysPerWeek s)) (Fin 50)"

definition annualCost :: "chapter6 \<Rightarrow> jsnum" where
  "annualCost s = jmul (annualMiles s) COST_PER_MILE"

definition currentAnnualCO2 :: "chapter6 \<Rightarrow> jsnum" where
  "currentAnnualCO2 s =
     (let baseEmission = EMISSIONS_PER_MODE (currentMode s);
          avgMiles = Fin 10000
      in jdiv (jmul baseEmission (jdiv (annualMiles s) avgMiles)) (Fin 1000))"

record option2 =
  o2_name :: string
  o2_co2Saved :: jsnum
  o2_costSaved :: jsnum
  hoursGained :: jsnum
  o2_available :: bool

definition option2 :: "chapter6 \<Rightarrow> option2" where
  "option2 s =
     \<lparr> o2_name = ''Go Remote 2 days/week'',
       o2_co2Saved =
         (if currentMode s = wfh then Fin 0
          else jmul (jdiv (jmul (EMISSIONS_PER_MODE (currentMode s))
                                (jdiv (annualMiles s) (Fin 10000))) (Fin 1000)) (Fin 0.4)),
       o2_costSaved = jmul (annualCost s) (Fin 0.4),
       hoursGained = jdiv (jmul (jmul (jmul (commuteMinutes s) (Fin 2)) (Fin 2)) (Fin 50)) (Fin 60),
       o2_available = True \<rparr>"

text \<open>The body of the \<open>try\<close> block: the two values it assigns, or the error thrown.\<close>

definition chapter6_load ::
  "summary_json fetched \<Rightarrow> scenarios_json fetched \<Rightarrow> js_error + jsnum \<times> jsnum" where
  "chapter6_load summaryResponse scenariosResponse =
     try_bind (await_json summaryResponse) (\<lambda>summaryData.
     try_bind (await_json scenariosResponse) (\<lambda>scenariosData.
     try_bind (deref summaryData) (\<lambda>summary.
     try_bind (deref scenariosData) (\<lambda>scenarios.
       let totalCommuters' = or_num (total_commuters summary) (Fin 6179069);
           annualCO2Tons' =
             or_num (case current scenarios of None \<Rightarrow> None | Some c \<Rightarrow> emissions_tons c) (Fin 0)
       in Inr (jdiv annualCO2Tons' totalCommuters',
               or_num (avg_commute_minutes summary) (Fin 30))))))"

definition chapter6_onMount ::
  "summary_json fetched \<Rightarrow> scenarios_json fetched \<Rightarrow> chapter6 \<Rightarrow> chapter6" where
  "chapter6_onMount summaryResponse scenariosResponse s =
     (case chapter6_load summaryResponse scenariosResponse of
        Inr (avg, minutes) \<Rightarrow>
          s\<lparr> paAvgCO2PerPerson := avg, commuteMinutes := minutes, c6_dataLoaded := True \<rparr>
      | Inl error \<Rightarrow>
          s\<lparr> c6_console := c6_console s @ [(''Error loading PA data:'', error)],
             c6_dataLoaded := True \<rparr>)"

definition chapter6_view :: "chapter6 \<Rightarrow> view" where
  "chapter6_view s = (if \<not> c6_dataLoaded s then LoadingState else ChapterContent)"

section \<open>Strings and the scene graph\<close>

text \<open>
  A string built by the page is a list of pieces: literal text, or the conversion
  \<open>String(x)\<close> of a number, which is kept as the number it renders. Concatenation is
  \<open>@\<close>. Literal text is the UTF-8 encoding of the source text.
\<close>

datatype piece = Lit string | Num jsnum

type_synonym jsstring = "piece list"

definition String :: "jsnum \<Rightarrow> jsstring" where
  "String x = [Num x]"

definition subscript_two :: string where
  "subscript_two = [CHR 0xE2, CHR 0x82, CHR 0x82]"

definition em_dash :: string where
  "em_dash = [CHR 0xE2, CHR 0x80, CHR 0x94]"

text \<open>The decimal digits of a natural number.\<close>

definition digit :: "nat \<Rightarrow> char" where
  "digit k = ''0123456789'' ! k"

fun dec :: "nat \<Rightarrow> string" where
  "dec n = (if n < 10 then [digit n] else dec (n div 10) @ [digit (n mod 10)])"

declare dec.simps [simp del]

text \<open>
  \<open>x.toFixed(d)\<close>. A finite number below \<open>10^21\<close> in magnitude is rounded to \<open>d\<close>
  decimals, a tie going away from zero, and written with a sign when it is negative;
  every other number is converted as \<open>String(x)\<close> does, which gives \<open>NaN\<close>,
  \<open>Infinity\<close>, \<open>-Infinity\<close> or the exponent notation. The digits are those of the
  exact value: where the double of the engine lies on the other side of a tie, the last
  digit of the engine differs by one.
\<close>

definition fixed_digits :: "nat \<Rightarrow> real \<Rightarrow> string" where
  "fixed_digits d r =
     (let n = nat \<lfloor>\<bar>r\<bar> * 10 ^ d + 1 / 2\<rfloor>;
          m = dec n;
          k = length m;
          m' = (if d = 0 then m
                else let z = (if k \<le> d then replicate (d + 1 - k) (CHR ''0'') @ m else m);
                         k' = length z
                     in take (k' - d) z @ ''.'' @ drop (k' - d) z)
      in (if r < 0 then ''-'' else '''') @ m')"

fun toFixed :: "nat \<Rightarrow> jsnum \<Rightarrow> jsstring" where
  "toFixed d (Fin r) = (if \<bar>r\<bar> < 10 ^ 21 then [Lit (fixed_digits d r)] else [Num (Fin r)])"
| "toFixed d x = [Num x]"

record CountyData =
  county :: string
  lat :: jsnum
  lon :: jsnum
  co2_tons :: jsnum
  population :: "jsnum option"
  co2_per_capita :: jsnum
  total_workers :: "jsnum option"
  mean_commute :: "jsnum option"

record MetroData =
  metro :: string
  avg_commute :: "jsnum option"
  workers :: "jsnum option"
  m_co2_per_capita :: "jsnum option"
  transit_pct :: "jsnum option"
  median_income :: "jsnum option"
  commute_burden_score :: "jsnum option"

text \<open>
  What an event listener does when it runs: it sets an attribute of its own element,
  assigns the selected county, or calls \<open>selectMetro\<close>.
\<close>

datatype action =
    SetOwnAttribute string jsstring
  | AssignSelectedCounty CountyData
  | CallSelectMetro MetroData

datatype node = Node
  (tagName: string)
  (attributes: "(string \<times> jsstring) list")
  (style: "(string \<times> jsstring) list")
  (listeners: "(string \<times> action list) list")
  (textContent: jsstring)
  (childNodes: "node list")

definition createElementNS :: "string \<Rightarrow> node" where
  "createElementNS qualifiedName = Node qualifiedName [] [] [] [] []"

text \<open>Setting a key of an ordered dictionary: replaced in place, or added at the end.\<close>

fun assign :: "string \<Rightarrow> 'v \<Rightarrow> (string \<times> 'v) list \<Rightarrow> (string \<times> 'v) list" where
  "assign k v [] = [(k, v)]"
| "assign k v ((k', v') # kvs) = (if k' = k then (k, v) # kvs else (k', v') # assign k v kvs)"

fun setAttribute :: "string \<times> jsstring \<Rightarrow> node \<Rightarrow> node" where
  "setAttribute (k, v) (Node t a s l x c) = Node t (assign k v a) s l x c"

fun setStyle :: "string \<times> jsstring \<Rightarrow> node \<Rightarrow> node" where
  "setStyle (k, v) (Node t a s l x c) = Node t a (assign k v s) l x c"

fun addEventListener :: "string \<times> action list \<Rightarrow> node \<Rightarrow> node" where
  "addEventListener h (Node t a s l x c) = Node t a s (l @ [h]) x c"

fun setTextContent :: "jsstring \<Rightarrow> node \<Rightarrow> node" where
  "setTextContent v (Node t a s l x c) = Node t a s l v []"

fun appendChild :: "node \<Rightarrow> node \<Rightarrow> node" where
  "appendChild child (Node t a s l x c) = Node t a s l x (c @ [child])"

text \<open>
  An element of the SVG namespace with its attributes, style properties and listeners
  set in the order given, and its text when it has one.
\<close>

definition svg_element ::
  "string \<Rightarrow> (string \<times> jsstring) list \<Rightarrow> (string \<times> jsstring) list
     \<Rightarrow> (string \<times> action list) list \<Rightarrow> node" where
  "svg_element name attrs styles handlers =
     fold addEventListener handlers
       (fold setStyle styles (fold setAttribute attrs (createElementNS name)))"

definition svg_text :: "(string \<times> jsstring) list \<Rightarrow> jsstring \<Rightarrow> node" where
  "svg_text attrs content = setTextContent content (svg_element ''text'' attrs [] [])"

text \<open>
  A container of the page is a \<open>div\<close> bound to a variable once the markup around it is
  shown: \<open>None\<close> while the variable is still \<open>undefined\<close>, otherwise the children of the
  \<open>div\<close>.
\<close>

type_synonym container = "node list option"

section \<open>Chapter 2: the county chart\<close>

datatype view_mode = total_mode | per_capita_mode

record chapter2 =
  countyData :: "CountyData list"
  c2_dataLoaded :: bool
  mapContainer :: container
  viewMode :: view_mode
  selectedCounty :: "CountyData option"
  c2_console :: "console_entry list"

definition chapter2_init :: chapter2 where
  "chapter2_init =
     \<lparr> countyData = [], c2_dataLoaded = False, mapContainer = None, viewMode = total_mode,
       selectedCounty = None, c2_console = [] \<rparr>"

definition countyCoordinates :: "(string \<times> jsnum \<times> jsnum) list" where
  "countyCoordinates =
     [(''Allegheny'', Fin 40.4406, Fin (- 79.9959)),
      (''Philadelphia'', Fin 40.0094, Fin (- 75.1333)),
      (''Montgomery'', Fin 40.1688, Fin (- 75.3560)),
      (''Bucks'', Fin 40.3154, Fin (- 75.1085)),
      (''Delaware'', Fin 39.9167, Fin (- 75.4167)),
      (''Chester'', Fin 39.9857, Fin (- 75.7499)),
      (''Lancaster'', Fin 40.0379, Fin (- 76.3055)),
      (''York'', Fin 39.9626, Fin (- 76.7277)),
      (''Berks'', Fin 40.4167, Fin (- 75.9269)),
      (''Dauphin'', Fin 40.3991, Fin (- 76.7897)),
      (''Westmoreland'', Fin 40.3097, Fin (- 79.5181)),
      (''Erie'', Fin 42.1292, Fin (- 80.0851)),
      (''Lehigh'', Fin 40.6023, Fin (- 75.5964)),
      (''Northampton'', Fin 40.7533, Fin (- 75.3082)),
      (''Luzerne'', Fin 41.1843, Fin (- 75.8813))]"

definition metroToCounties :: "(string \<times> string list) list" where
  "metroToCounties =
     [(''Philadelphia'', [''Philadelphia'', ''Montgomery'', ''Bucks'', ''Delaware'', ''Chester'']),
      (''Pittsburgh'', [''Allegheny'', ''Westmoreland'']),
      (''Harrisburg'', [''Dauphin'']),
      (''Allentown'', [''Lehigh'', ''Northampton''])]"

text \<open>\<open>countyCoordinates[name] || { lat: 40.0, lon: -77.0 }\<close>.\<close>

definition coords_of :: "string \<Rightarrow> jsnum \<times> jsnum" where
  "coords_of name = (case map_of countyCoordinates name of
       Some c \<Rightarrow> c
     | None \<Rightarrow> (Fin 40.0, Fin (- 77.0)))"

text \<open>The reactive summary of the header.\<close>

definition sum_co2 :: "CountyData list \<Rightarrow> jsnum" where
  "sum_co2 cs = foldl (\<lambda>sum c. jadd sum (co2_tons c)) (Fin 0) cs"

definition slice :: "nat \<Rightarrow> nat \<Rightarrow> 'a list \<Rightarrow> 'a list" where
  "slice start end xs = drop start (take end xs)"

definition totalEmissions :: "chapter2 \<Rightarrow> jsnum" where
  "totalEmissions s =
     (if length (countyData s) > 0 then sum_co2 (countyData s) else Fin 0)"

definition top10Emissions :: "chapter2 \<Rightarrow> jsnum" where
  "top10Emissions s =
     (if length (countyData s) > 0
      then sum_co2 (slice 0 (min 10 (length (countyData s))) (countyData s))
      else Fin 0)"

definition top10Percentage :: "chapter2 \<Rightarrow> jsstring" where
  "top10Percentage s =
     (if jgt (totalEmissions s) (Fin 0)
      then toFixed 0 (jmul (jdiv (top10Emissions s) (totalEmissions s)) (Fin 100))
      else [Lit ''0''])"

text \<open>The rows of the three files the chapter reads.\<close>

record map_item =
  mi_county :: string
  mi_lat :: jsnum
  mi_lon :: jsnum
  mi_co2_tons :: "jsnum option"
  mi_co2_per_capita :: "jsnum option"
  mi_mean_commute :: "jsnum option"

record emissions_item =
  ei_county :: string
  annual_co2_tons :: "jsnum option"
  co2_per_capita_tons :: "jsnum option"
  ei_total_workers :: "jsnum option"
  mean_commute_minutes :: "jsnum option"

definition from_map_item :: "map_item \<Rightarrow> CountyData" where
  "from_map_item item =
     \<lparr> county = mi_county item, lat = mi_lat item, lon = mi_lon item,
       co2_tons = or_num (mi_co2_tons item) (Fin 0), population = None,
       co2_per_capita = or_num (mi_co2_per_capita item) (Fin 0),
       total_workers = None, mean_commute = mi_mean_commute item \<rparr>"

definition from_emissions_item :: "emissions_item \<Rightarrow> CountyData" where
  "from_emissions_item item =
     (let coords = coords_of (ei_county item)
      in \<lparr> county = ei_county item, lat = fst coords, lon = snd coords,
           co2_tons = or_num (annual_co2_tons item) (Fin 0), population = None,
           co2_per_capita = or_num (co2_per_capita_tons item) (Fin 0),
           total_workers = ei_total_workers item,
           mean_commute = mean_commute_minutes item \<rparr>)"

definition from_metro :: "MetroData \<Rightarrow> CountyData" where
  "from_metro m =
     (let counties = (case map_of metroToCounties (metro m) of
                        Some cs \<Rightarrow> cs | None \<Rightarrow> [metro m]);
          primaryCounty = hd counties;
          coords = coords_of primaryCounty;
          estimatedCO2 = jmul (to_number (m_co2_per_capita m)) (to_number (workers m))
      in \<lparr> county = primaryCounty, lat = fst coords, lon = snd coords,
           co2_tons = estimatedCO2, population = None,
           co2_per_capita = to_number (m_co2_per_capita m),
           total_workers = workers m, mean_commute = avg_commute m \<rparr>)"

definition plain_county :: "string \<Rightarrow> real \<Rightarrow> real \<Rightarrow> real \<Rightarrow> real \<Rightarrow> CountyData" where
  "plain_county name la lo tons per =
     \<lparr> county = name, lat = Fin la, lon = Fin lo, co2_tons = Fin tons, population = None,
       co2_per_capita = Fin per, total_workers = None, mean_commute = None \<rparr>"

definition default_counties :: "CountyData list" where
  "default_counties =
     [plain_county ''Philadelphia'' 40.0094 (- 75.1333) 2345000 1.48,
      plain_county ''Allegheny'' 40.4406 (- 79.9959) 1234000 0.99,
      plain_county ''Montgomery'' 40.1688 (- 75.3560) 987000 1.15,
      plain_county ''Bucks'' 40.3154 (- 75.1085) 765000 1.22,
      plain_county ''Delaware'' 39.9167 (- 75.4167) 654000 1.16]"

definition fallback_counties :: "CountyData list" where
  "fallback_counties =
     [plain_county ''Philadelphia'' 40.0094 (- 75.1333) 2345000 1.48,
      plain_county ''Allegheny'' 40.4406 (- 79.9959) 1234000 0.99,
      plain_county ''Montgomery'' 40.1688 (- 75.3560) 987000 1.15]"

text \<open>
  \<open>Array.prototype.sort\<close> with a comparison function: a stable sort, modelled by
  insertion. Where the comparison function answers NaN the language leaves the order to
  the engine; the order of the model is then one possible order and need not be the one
  an engine gives.
\<close>

fun insert_by :: "('a \<Rightarrow> 'a \<Rightarrow> jsnum) \<Rightarrow> 'a \<Rightarrow> 'a list \<Rightarrow> 'a list" where
  "insert_by cmp x [] = [x]"
| "insert_by cmp x (y # ys) =
     (if jgt (cmp x y) (Fin 0) then y # insert_by cmp x ys else x # y # ys)"

definition sort_by :: "('a \<Rightarrow> 'a \<Rightarrow> jsnum) \<Rightarrow> 'a list \<Rightarrow> 'a list" where
  "sort_by cmp xs = foldr (insert_by cmp) xs []"

text \<open>The scene of \<open>renderMap\<close>. Its layout constants come first.\<close>

definition map_svgWidth :: jsnum where "map_svgWidth = Fin 800"
definition map_svgHeight :: jsnum where "map_svgHeight = Fin 600"
definition map_leftMargin :: jsnum where "map_leftMargin = Fin 80"
definition map_rightMargin :: jsnum where "map_rightMargin = Fin 50"
definition map_topMargin :: jsnum where "map_topMargin = Fin 50"
definition map_bottomMargin :: jsnum where "map_bottomMargin = Fin 80"

definition map_plotWidth :: jsnum where
  "map_plotWidth = jsub (jsub map_svgWidth map_leftMargin) map_rightMargin"

definition map_plotHeight :: jsnum where
  "map_plotHeight = jsub (jsub map_svgHeight map_topMargin) map_bottomMargin"

definition valueKey :: "view_mode \<Rightarrow> CountyData \<Rightarrow> jsnum" where
  "valueKey vm c = (case vm of total_mode \<Rightarrow> co2_tons c | per_capita_mode \<Rightarrow> co2_per_capita c)"

definition getRadius :: "CountyData list \<Rightarrow> CountyData \<Rightarrow> jsnum" where
  "getRadius cs c =
     (if truthy (to_number (total_workers c)) then
        (let maxWorkers = Math_max (map (\<lambda>c. or_num (total_workers c) (Fin 0)) cs);
             minR = Fin 8; maxR = Fin 35
         in jadd (jmul (Math_sqrt (jdiv (or_num (total_workers c) (Fin 0))
                                        (or_else maxWorkers (Fin 1))))
                       (jsub maxR minR)) minR)
      else Fin 12)"

definition map_x_tick :: "jsnum \<Rightarrow> jsnum \<Rightarrow> nat \<Rightarrow> node list" where
  "map_x_tick minCommute maxCommute i =
     (let leftMargin = map_leftMargin; topMargin = map_topMargin;
          plotWidth = map_plotWidth; plotHeight = map_plotHeight;
          xTickCount = Fin 6;
          value = jadd minCommute (jmul (jsub maxCommute minCommute)
                                        (jdiv (Fin (real i)) xTickCount));
          x = jadd leftMargin (jdiv (jmul plotWidth (Fin (real i))) xTickCount);
          tick = svg_element ''line''
            [(''x1'', String x),
             (''y1'', String (jadd topMargin plotHeight)),
             (''x2'', String x),
             (''y2'', String (jadd (jadd topMargin plotHeight) (Fin 5))),
             (''stroke'', [Lit ''rgba(255,255,255,0.4)'']),
             (''stroke-width'', [Lit ''1''])] [] [];
          label = svg_text
            [(''x'', String x),
             (''y'', String (jadd (jadd topMargin plotHeight) (Fin 22))),
             (''text-anchor'', [Lit ''middle'']),
             (''fill'', [Lit ''rgba(255,255,255,0.8)'']),
             (''font-size'', [Lit ''12''])]
            (toFixed 0 value)
      in [tick, label])"

definition map_y_tick :: "view_mode \<Rightarrow> jsnum \<Rightarrow> jsnum \<Rightarrow> nat \<Rightarrow> node list" where
  "map_y_tick vm minValue maxValue i =
     (let leftMargin = map_leftMargin; topMargin = map_topMargin;
          plotHeight = map_plotHeight;
          yTickCount = Fin 6;
          value = jadd minValue (jmul (jsub maxValue minValue)
                                      (jsub (Fin 1) (jdiv (Fin (real i)) yTickCount)));
          y = jadd topMargin (jdiv (jmul plotHeight (Fin (real i))) yTickCount);
          tick = svg_element ''line''
            [(''x1'', String leftMargin),
             (''y1'', String y),
             (''x2'', String (jsub leftMargin (Fin 5))),
             (''y2'', String y),
             (''stroke'', [Lit ''rgba(255,255,255,0.4)'']),
             (''stroke-width'', [Lit ''1''])] [] [];
          label = svg_text
            [(''x'', String (jsub leftMargin (Fin 10))),
             (''y'', String (jadd y (Fin 4))),
             (''text-anchor'', [Lit ''end'']),
             (''fill'', [Lit ''rgba(255,255,255,0.8)'']),
             (''font-size'', [Lit ''12''])]
            (if vm = total_mode then toFixed 0 (jdiv value (Fin 1000)) @ [Lit ''K'']
             else toFixed 1 value)
      in [tick, label])"

definition county_marks ::
  "view_mode \<Rightarrow> CountyData list \<Rightarrow> jsnum \<Rightarrow> jsnum \<Rightarrow> jsnum \<Rightarrow> jsnum \<Rightarrow> CountyData
     \<Rightarrow> node list" where
  "county_marks vm cs minCommute maxCommute minValue maxValue c =
     (let leftMargin = map_leftMargin; topMargin = map_topMargin;
          plotWidth = map_plotWidth; plotHeight = map_plotHeight;
          commuteTime = or_num (mean_commute c) (jdiv (jadd minCommute maxCommute) (Fin 2));
          emissionValue = valueKey vm c;
          x = jadd leftMargin
                (jmul (jdiv (jsub commuteTime minCommute)
                            (or_else (jsub maxCommute minCommute) (Fin 1))) plotWidth);
          y = jsub (jadd topMargin plotHeight)
                (jmul (jdiv (jsub emissionValue minValue)
                            (or_else (jsub maxValue minValue) (Fin 1))) plotHeight);
          radius = getRadius cs c;
          circle = svg_element ''circle''
            [(''cx'', String x),
             (''cy'', String y),
             (''r'', String radius),
             (''fill'', [Lit ''#ff6b6b'']),
             (''fill-opacity'', [Lit ''0.6'']),
             (''stroke'', [Lit ''#ff6b6b'']),
             (''stroke-width'', [Lit ''2''])]
            [(''cursor'', [Lit ''pointer''])]
            [(''mouseenter'',
                [SetOwnAttribute ''fill-opacity'' [Lit ''0.9''],
                 SetOwnAttribute ''stroke-width'' [Lit ''3''],
                 AssignSelectedCounty c]),
             (''mouseleave'',
                [SetOwnAttribute ''fill-opacity'' [Lit ''0.6''],
                 SetOwnAttribute ''stroke-width'' [Lit ''2'']])];
          nameLabel = svg_text
            [(''x'', String x),
             (''y'', String (jsub (jsub y radius) (Fin 8))),
             (''text-anchor'', [Lit ''middle'']),
             (''font-size'', [Lit ''11'']),
             (''fill'', [Lit ''#ffffff'']),
             (''font-weight'', [Lit ''600'']),
             (''stroke'', [Lit ''#000000'']),
             (''stroke-width'', [Lit ''0.5'']),
             (''stroke-opacity'', [Lit ''0.7''])]
            [Lit (county c)];
          isTop = jeq emissionValue maxValue;
          labelX = jadd (jadd x radius) (Fin 25);
          labelY = jsub y (Fin 5);
          line = svg_element ''line''
            [(''x1'', String (jadd x radius)),
             (''y1'', String y),
             (''x2'', String (jsub labelX (Fin 4))),
             (''y2'', String labelY),
             (''stroke'', [Lit ''#ffd93d'']),
             (''stroke-width'', [Lit ''1.5''])] [] [];
          text = svg_text
            [(''x'', String labelX),
             (''y'', String labelY),
             (''fill'', [Lit ''#ffd93d'']),
             (''font-size'', [Lit ''13'']),
             (''font-weight'', [Lit ''bold'']),
             (''stroke'', [Lit ''#333'']),
             (''stroke-width'', [Lit ''0.7''])]
            [Lit (if vm = total_mode then ''Top Emitter'' else ''Highest per Capita'')]
      in [circle, nameLabel] @ (if isTop then [line, text] else []))"

definition map_svg :: "view_mode \<Rightarrow> CountyData list \<Rightarrow> node" where
  "map_svg vm cs =
     (let svgWidth = map_svgWidth; svgHeight = map_svgHeight;
          leftMargin = map_leftMargin; topMargin = map_topMargin;
          plotWidth = map_plotWidth; plotHeight = map_plotHeight;
          yAxisLabel =
            (if vm = total_mode then ''Total Annual CO'' @ subscript_two @ '' Emissions (tons)''
             else ''Per Capita CO'' @ subscript_two @ '' Emissions (tons/person)'');
          commuteTimes =
            filter (\<lambda>v. jgt v (Fin 0)) (map (\<lambda>c. or_num (mean_commute c) (Fin 0)) cs);
          minCommute = (if length commuteTimes > 0 then Math_min commuteTimes else Fin 0);
          maxCommute = (if length commuteTimes > 0 then Math_max commuteTimes else Fin 50);
          values = map (valueKey vm) cs;
          minValue = Math_min values;
          maxValue = Math_max values;
          svg = svg_element ''svg''
            [(''viewBox'', [Lit ''0 0 '', Num svgWidth, Lit '' '', Num svgHeight])]
            [(''width'', [Lit ''100%'']),
             (''height'', [Num svgHeight, Lit ''px'']),
             (''background'', [Lit ''rgba(255,255,255,0.05)'']),
             (''borderRadius'', [Lit ''12px''])] [];
          plotArea = svg_element ''rect''
            [(''x'', String leftMargin),
             (''y'', String topMargin),
             (''width'', String plotWidth),
             (''height'', String plotHeight),
             (''fill'', [Lit ''rgba(255,255,255,0.02)'']),
             (''stroke'', [Lit ''rgba(255,255,255,0.2)'']),
             (''stroke-width'', [Lit ''1''])] [] [];
          xAxis = svg_element ''line''
            [(''x1'', String leftMargin),
             (''y1'', String (jadd topMargin plotHeight)),
             (''x2'', String (jadd leftMargin plotWidth)),
             (''y2'', String (jadd topMargin plotHeight)),
             (''stroke'', [Lit ''rgba(255,255,255,0.5)'']),
             (''stroke-width'', [Lit ''2''])] [] [];
          yAxis = svg_element ''line''
            [(''x1'', String leftMargin),
             (''y1'', String topMargin),
             (''x2'', String leftMargin),
             (''y2'', String (jadd topMargin plotHeight)),
             (''stroke'', [Lit ''rgba(255,255,255,0.5)'']),
             (''stroke-width'', [Lit ''2''])] [] [];
          xTicks = concat (map (map_x_tick minCommute maxCommute) [0..<7]);
          yTicks = concat (map (map_y_tick vm minValue maxValue) [0..<7]);
          xAxisTitle = svg_text
            [(''x'', String (jadd leftMargin (jdiv plotWidth (Fin 2)))),
             (''y'', String (jsub svgHeight (Fin 20))),
             (''text-anchor'', [Lit ''middle'']),
             (''fill'', [Lit ''rgba(255,255,255,0.9)'']),
             (''font-size'', [Lit ''14'']),
             (''font-weight'', [Lit ''600''])]
            [Lit ''Average Commute Time (minutes)''];
          yAxisTitle = svg_text
            [(''x'', String (Fin 20)),
             (''y'', String (jadd topMargin (jdiv plotHeight (Fin 2)))),
             (''text-anchor'', [Lit ''middle'']),
             (''fill'', [Lit ''rgba(255,255,255,0.9)'']),
             (''font-size'', [Lit ''14'']),
             (''font-weight'', [Lit ''600'']),
             (''transform'', [Lit ''rotate(-90, 20, '',
                              Num (jadd topMargin (jdiv plotHeight (Fin 2))), Lit '')''])]
            [Lit yAxisLabel];
          marks = concat (map (county_marks vm cs minCommute maxCommute minValue maxValue) cs)
      in fold appendChild
           ([plotArea, xAxis, yAxis] @ xTicks @ yTicks @ [xAxisTitle, yAxisTitle] @ marks) svg)"

text \<open>The two statements that end \<open>renderMap\<close>, on the children of the container.\<close>

definition clear_innerHTML :: "node list \<Rightarrow> node list" where
  "clear_innerHTML children = []"

definition append_to :: "node \<Rightarrow> node list \<Rightarrow> node list" where
  "append_to child children = children @ [child]"

definition renderMap :: "chapter2 \<Rightarrow> chapter2" where
  "renderMap s =
     (case mapContainer s of
        None \<Rightarrow> s
      | Some children \<Rightarrow>
          if length (countyData s) = 0 then s
          else let svg = map_svg (viewMode s) (countyData s)
               in s\<lparr> mapContainer := Some (append_to svg (clear_innerHTML children)) \<rparr>)"

definition toggleView :: "chapter2 \<Rightarrow> chapter2" where
  "toggleView s =
     renderMap (s\<lparr> viewMode := (if viewMode s = total_mode then per_capita_mode else total_mode) \<rparr>)"

text \<open>The body of the \<open>try\<close> block up to the sort: the county list, or the error thrown.\<close>

definition chapter2_load ::
  "map_item list fetched \<Rightarrow> emissions_item list fetched \<Rightarrow> MetroData list fetched
     \<Rightarrow> js_error + CountyData list" where
  "chapter2_load mapDataResponse emissionsResponse metroResponse =
     try_bind (await_json mapDataResponse) (\<lambda>mapData.
     try_bind (await_json emissionsResponse) (\<lambda>emissionsData.
     try_bind (await_json metroResponse) (\<lambda>metroData.
       let chosen =
         (case mapData of Some (m # ms) \<Rightarrow> map from_map_item (m # ms)
          | _ \<Rightarrow>
         (case emissionsData of Some (e # es) \<Rightarrow> map from_emissions_item (e # es)
          | _ \<Rightarrow>
         (case metroData of Some (m # ms) \<Rightarrow> map from_metro (m # ms)
          | _ \<Rightarrow> default_counties)))
       in Inr (sort_by (\<lambda>a b. jsub (co2_tons b) (co2_tons a)) chosen))))"

definition chapter2_onMount ::
  "map_item list fetched \<Rightarrow> emissions_item list fetched \<Rightarrow> MetroData list fetched
     \<Rightarrow> chapter2 \<Rightarrow> chapter2" where
  "chapter2_onMount mapDataResponse emissionsResponse metroResponse s =
     (case chapter2_load mapDataResponse emissionsResponse metroResponse of
        Inr cs \<Rightarrow> renderMap (s\<lparr> countyData := cs, c2_dataLoaded := True \<rparr>)
      | Inl error \<Rightarrow>
          renderMap
            (s\<lparr> c2_console := c2_console s @ [(''Error loading county data:'', error)],
                countyData := fallback_counties,
                c2_dataLoaded := True \<rparr>))"

definition chapter2_view :: "chapter2 \<Rightarrow> view" where
  "chapter2_view s = (if \<not> c2_dataLoaded s then LoadingState else ChapterContent)"

text \<open>
  What the header of Chapter 2 is to show as a percentage: the decimal numeral of an
  integer, with a sign when it is negative, or the conversion of a finite number.
\<close>

definition is_digit :: "char \<Rightarrow> bool" where
  "is_digit c = (c \<in> set ''0123456789'')"

definition integer_numeral :: "string \<Rightarrow> bool" where
  "integer_numeral s =
     (let digits = (case s of [] \<Rightarrow> [] | c # cs \<Rightarrow> if c = CHR ''-'' then cs else s)
      in digits \<noteq> [] \<and> list_all is_digit digits)"

fun finite_numeral :: "jsstring \<Rightarrow> bool" where
  "finite_numeral [Lit s] = integer_numeral s"
| "finite_numeral [Num x] = is_finite x"
| "finite_numeral _ = False"

text \<open>A county record whose emissions are infinite, as \<open>1e999\<close> in a data file parses.\<close>

definition infinite_county :: CountyData where
  "infinite_county = (plain_county ''Philadelphia'' 40.0094 (- 75.1333) 0 1.48)\<lparr> co2_tons := PInf \<rparr>"

text \<open>
  Twelve county records with finite emissions, one of them negative: the first ten sum to
  \<open>2^1000\<close> and the twelve to \<open>2^-1000\<close>.
\<close>

definition cancelling_counties :: "CountyData list" where
  "cancelling_counties =
     plain_county ''A'' 40 (- 77) (2 ^ 1000) 1
     # replicate 9 (plain_county ''B'' 40 (- 77) 0 1)
     @ [plain_county ''C'' 40 (- 77) (- (2 ^ 1000)) 1,
        plain_county ''D'' 40 (- 77) (1 / 2 ^ 1000) 1]"

section \<open>Chapter 3: the metro chart\<close>

record chapter3 =
  metroData :: "MetroData list"
  c3_dataLoaded :: bool
  selectedMetro :: "MetroData option"
  chartContainer :: container
  currentSvg :: "node option"
  c3_console :: "console_entry list"

definition chapter3_init :: chapter3 where
  "chapter3_init =
     \<lparr> metroData = [], c3_dataLoaded = False, selectedMetro = None, chartContainer = None,
       currentSvg = None, c3_console = [] \<rparr>"

definition chapter3_view :: "chapter3 \<Rightarrow> view" where
  "chapter3_view s =
     (if \<not> c3_dataLoaded s then LoadingState
      else if length (metroData s) = 0 then CouldNotLoadMessage
      else ChapterContent)"

definition safe :: "jsnum option \<Rightarrow> nat \<Rightarrow> jsstring" where
  "safe n digits = (case n of
       Some (Fin r) \<Rightarrow> toFixed digits (Fin r)
     | _ \<Rightarrow> [Lit em_dash])"

text \<open>The scene of \<open>renderChart\<close>. Its layout constants come first.\<close>

definition chart_svgWidth :: jsnum where "chart_svgWidth = Fin 920"
definition chart_svgHeight :: jsnum where "chart_svgHeight = Fin 520"
definition margin_top :: jsnum where "margin_top = Fin 90"
definition margin_right :: jsnum where "margin_right = Fin 40"
definition margin_bottom :: jsnum where "margin_bottom = Fin 110"
definition margin_left :: jsnum where "margin_left = Fin 80"

definition chartWidth :: jsnum where
  "chartWidth = jsub (jsub chart_svgWidth margin_left) margin_right"

definition chartHeight :: jsnum where
  "chartHeight = jsub (jsub chart_svgHeight margin_top) margin_bottom"

definition chart_tick :: "jsnum \<Rightarrow> nat \<Rightarrow> node list" where
  "chart_tick maxCommute i =
     (let tickCount = Fin 5;
          v = jmul (jdiv maxCommute tickCount) (Fin (real i));
          y = jsub chartHeight (jmul (jdiv v maxCommute) chartHeight);
          t = svg_element ''line''
            [(''x1'', [Lit ''-6'']),
             (''y1'', String y),
             (''x2'', [Lit ''0'']),
             (''y2'', String y),
             (''stroke'', [Lit ''rgba(255,255,255,0.25)''])] [] [];
          label = svg_text
            [(''x'', [Lit ''-12'']),
             (''y'', String (jadd y (Fin 4))),
             (''text-anchor'', [Lit ''end'']),
             (''fill'', [Lit ''rgba(255,255,255,0.75)'']),
             (''font-size'', [Lit ''12''])]
            (toFixed 0 v);
          grid = svg_element ''line''
            [(''x1'', [Lit ''0'']),
             (''y1'', String y),
             (''x2'', String chartWidth),
             (''y2'', String y),
             (''stroke'', [Lit ''rgba(255,255,255,0.05)''])] [] []
      in [t, label, grid])"

definition legendItems :: "(string \<times> string) list" where
  "legendItems =
     [(''#4ecdc4'', ''Commute (minutes)''),
      (''#ff6b6b'', ''CO'' @ subscript_two @ '' per person (tons)'')]"

definition legend_entry :: "(string \<times> string) \<times> nat \<Rightarrow> node list" where
  "legend_entry e =
     (let item = fst e; idx = snd e;
          legendX = jsub chartWidth (Fin 36);
          legendY = Fin (- 62);
          x = legendX;
          y = jadd legendY (jmul (Fin (real idx)) (Fin 18));
          rect = svg_element ''rect''
            [(''x'', String x),
             (''y'', String (jsub y (Fin 10))),
             (''width'', [Lit ''12'']),
             (''height'', [Lit ''12'']),
             (''fill'', [Lit (fst item)]),
             (''rx'', [Lit ''2''])] [] [];
          text = svg_text
            [(''x'', String (jadd x (Fin 18))),
             (''y'', String y),
             (''fill'', [Lit ''rgba(255,255,255,0.75)'']),
             (''font-size'', [Lit ''12'']),
             (''font-weight'', [Lit ''500''])]
            [Lit (snd item)]
      in [rect, text])"

text \<open>\<open>selectedMetro?.metro === m.metro\<close>.\<close>

definition is_selected :: "MetroData option \<Rightarrow> MetroData \<Rightarrow> bool" where
  "is_selected sel m = (case sel of None \<Rightarrow> False | Some x \<Rightarrow> metro x = metro m)"

definition metro_bars ::
  "MetroData option \<Rightarrow> jsnum \<Rightarrow> jsnum \<Rightarrow> jsnum \<Rightarrow> MetroData \<times> nat \<Rightarrow> node list" where
  "metro_bars sel groupWidth maxCommute maxCO2 e =
     (let m = fst e; i = snd e;
          barWidth = jmul groupWidth (Fin 0.28);
          gap = jmul groupWidth (Fin 0.10);
          isSelected = is_selected sel m;
          xCenter = jadd (jmul (Fin (real i)) groupWidth) (jdiv groupWidth (Fin 2));
          x1 = jsub (jsub xCenter barWidth) (jdiv gap (Fin 2));
          x2 = jadd xCenter (jdiv gap (Fin 2));
          commuteH = jmul (jdiv (to_number (avg_commute m)) maxCommute) chartHeight;
          co2H = jmul (jdiv (to_number (m_co2_per_capita m)) maxCO2) chartHeight;
          commuteBar = svg_element ''rect''
            [(''x'', String x1),
             (''y'', String (jsub chartHeight commuteH)),
             (''width'', String barWidth),
             (''height'', String commuteH),
             (''fill'', [Lit ''#4ecdc4'']),
             (''fill-opacity'', [Lit (if isSelected then ''0.95'' else ''0.65'')]),
             (''stroke'', [Lit ''#4ecdc4'']),
             (''stroke-width'', [Lit (if isSelected then ''3'' else ''1'')])]
            [(''cursor'', [Lit ''pointer''])]
            [(''click'', [CallSelectMetro m])];
          co2Bar = svg_element ''rect''
            [(''x'', String x2),
             (''y'', String (jsub chartHeight co2H)),
             (''width'', String barWidth),
             (''height'', String co2H),
             (''fill'', [Lit ''#ff6b6b'']),
             (''fill-opacity'', [Lit (if isSelected then ''0.95'' else ''0.65'')]),
             (''stroke'', [Lit ''#ff6b6b'']),
             (''stroke-width'', [Lit (if isSelected then ''3'' else ''1'')])]
            [(''cursor'', [Lit ''pointer''])]
            [(''click'', [CallSelectMetro m])];
          name = setTextContent [Lit (metro m)] (svg_element ''text''
            [(''x'', String xCenter),
             (''y'', String (jadd chartHeight (Fin 30))),
             (''text-anchor'', [Lit ''middle'']),
             (''fill'', [Lit (if isSelected then ''#ffd93d'' else ''rgba(255,255,255,0.9)'')]),
             (''font-size'', [Lit ''14'']),
             (''font-weight'', [Lit (if isSelected then ''700'' else ''600'')])]
            [(''cursor'', [Lit ''pointer''])]
            [(''click'', [CallSelectMetro m])]);
          cLab = svg_text
            [(''x'', String (jadd x1 (jdiv barWidth (Fin 2)))),
             (''y'', String (jsub (jsub chartHeight commuteH) (Fin 8))),
             (''text-anchor'', [Lit ''middle'']),
             (''fill'', [Lit ''rgba(255,255,255,0.9)'']),
             (''font-size'', [Lit ''11''])]
            (safe (avg_commute m) 1);
          eLab = svg_text
            [(''x'', String (jadd x2 (jdiv barWidth (Fin 2)))),
             (''y'', String (jsub (jsub chartHeight co2H) (Fin 8))),
             (''text-anchor'', [Lit ''middle'']),
             (''fill'', [Lit ''rgba(255,255,255,0.9)'']),
             (''font-size'', [Lit ''11''])]
            (safe (m_co2_per_capita m) 2)
      in [commuteBar, co2Bar, name, cLab, eLab])"

definition chart_svg :: "MetroData option \<Rightarrow> MetroData list \<Rightarrow> node" where
  "chart_svg sel ms =
     (let groupWidth = jdiv chartWidth (Fin (real (length ms)));
          maxCommute = Math_max (map (\<lambda>m. or_num (avg_commute m) (Fin 0)) ms @ [Fin 1]);
          maxCO2 = Math_max (map (\<lambda>m. or_num (m_co2_per_capita m) (Fin 0)) ms @ [Fin 1]);
          svg = svg_element ''svg''
            [(''viewBox'', [Lit ''0 0 '', Num chart_svgWidth, Lit '' '', Num chart_svgHeight])]
            [(''width'', [Lit ''100%'']),
             (''height'', [Num chart_svgHeight, Lit ''px'']),
             (''background'', [Lit ''rgba(255,255,255,0.05)'']),
             (''borderRadius'', [Lit ''14px''])] [];
          g = svg_element ''g''
            [(''transform'', [Lit ''translate('', Num margin_left, Lit '','', Num margin_top,
                              Lit '')''])] [] [];
          xAxis = svg_element ''line''
            [(''x1'', [Lit ''0'']),
             (''y1'', String chartHeight),
             (''x2'', String chartWidth),
             (''y2'', String chartHeight),
             (''stroke'', [Lit ''rgba(255,255,255,0.35)'']),
             (''stroke-width'', [Lit ''2''])] [] [];
          yAxis = svg_element ''line''
            [(''x1'', [Lit ''0'']),
             (''y1'', [Lit ''0'']),
             (''x2'', [Lit ''0'']),
             (''y2'', String chartHeight),
             (''stroke'', [Lit ''rgba(255,255,255,0.35)'']),
             (''stroke-width'', [Lit ''2''])] [] [];
          ticks = concat (map (chart_tick maxCommute) [0..<6]);
          title = svg_text
            [(''x'', String (jdiv chartWidth (Fin 2))),
             (''y'', [Lit ''-55'']),
             (''text-anchor'', [Lit ''middle'']),
             (''fill'', [Lit ''rgba(255,255,255,0.92)'']),
             (''font-size'', [Lit ''16'']),
             (''font-weight'', [Lit ''650''])]
            [Lit (''Commute time vs CO'' @ subscript_two
                  @ '' per person (click a metro to highlight)'')];
          legend = concat (map legend_entry (zip legendItems [0..<length legendItems]));
          bars = concat (map (metro_bars sel groupWidth maxCommute maxCO2)
                             (zip ms [0..<length ms]));
          yX = Fin (- 55);
          yY = jdiv chartHeight (Fin 2);
          yTitle = svg_text
            [(''x'', String yX),
             (''y'', String yY),
             (''text-anchor'', [Lit ''middle'']),
             (''fill'', [Lit ''rgba(255,255,255,0.85)'']),
             (''font-size'', [Lit ''13'']),
             (''font-weight'', [Lit ''600'']),
             (''transform'', [Lit ''rotate(-90, '', Num yX, Lit '', '', Num yY, Lit '')''])]
            [Lit (''Commute (minutes) and CO'' @ subscript_two @ '' (tons)'')]
      in appendChild
           (fold appendChild ([xAxis, yAxis] @ ticks @ [title] @ legend @ bars @ [yTitle]) g)
           svg)"

definition renderChart :: "chapter3 \<Rightarrow> chapter3" where
  "renderChart s =
     (case chartContainer s of
        None \<Rightarrow> s
      | Some children \<Rightarrow>
          if length (metroData s) = 0 then s
          else let cleared = clear_innerHTML children;
                   svg = chart_svg (selectedMetro s) (metroData s)
               in s\<lparr> chartContainer := Some (append_to svg cleared), currentSvg := Some svg \<rparr>)"

definition selectMetro :: "MetroData \<Rightarrow> chapter3 \<Rightarrow> chapter3" where
  "selectMetro m s =
     renderChart (s\<lparr> selectedMetro := (if is_selected (selectedMetro s) m then None else Some m) \<rparr>)"

text \<open>
  \<open>await tick()\<close> lets the framework bring the page up to date with the state: the
  container is bound when the content of the chapter is shown and unbound otherwise, and
  the reactive statement \<open>if (dataLoaded && chartContainer && metroData.length)
  renderChart()\<close> runs.
\<close>

definition tick3 :: "chapter3 \<Rightarrow> chapter3" where
  "tick3 s =
     (let s' = (if chapter3_view s = ChapterContent
                then (case chartContainer s of
                        None \<Rightarrow> s\<lparr> chartContainer := Some [] \<rparr>
                      | Some _ \<Rightarrow> s)
                else s\<lparr> chartContainer := None \<rparr>)
      in if c3_dataLoaded s' \<and> chartContainer s' \<noteq> None \<and> length (metroData s') \<noteq> 0
         then renderChart s' else s')"

definition chapter3_onMount :: "MetroData list fetched \<Rightarrow> chapter3 \<Rightarrow> chapter3" where
  "chapter3_onMount metroResponse s =
     (case await_json metroResponse of
        Inr json \<Rightarrow>
          (let md = (case json of None \<Rightarrow> [] | Some rows \<Rightarrow> rows);
               s1 = s\<lparr> metroData := md \<rparr>;
               s2 = (if length md \<noteq> 0 then s1\<lparr> selectedMetro := Some (hd md) \<rparr> else s1);
               s3 = s2\<lparr> c3_dataLoaded := True \<rparr>
           in renderChart (tick3 s3))
      | Inl error \<Rightarrow>
          s\<lparr> c3_console := c3_console s @ [(''Error loading metro data:'', error)],
             c3_dataLoaded := True \<rparr>)"

text \<open>A row of the metro file, for examples.\<close>

definition example_metro :: MetroData where
  "example_metro =
     \<lparr> metro = ''Pittsburgh'', avg_commute = Some (Fin 26.8), workers = Some (Fin 980000),
       m_co2_per_capita = Some (Fin 2.38), transit_pct = Some (Fin 5.2),
       median_income = Some (Fin 62000), commute_burden_score = Some (Fin 0.43) \<rparr>"

section \<open>Chapter 4: the scenario builder\<close>

text \<open>
  The data load of the scenario chapter. The two canvas charts that the chapter draws
  with a charting library after the load are outside the model.
\<close>

record pa_baseline =
  b_total_commuters :: "jsnum option"
  current_emissions_tons :: "jsnum option"
  drive_alone_pct :: "jsnum option"
  b_transit_pct :: "jsnum option"
  wfh_pct :: "jsnum option"

record chapter4 =
  PA_BASELINE :: pa_baseline
  transitShiftPct :: jsnum
  wfhIncreasePct :: jsnum
  c4_dataLoaded :: bool
  predefinedScenarios :: "scenarios_json option"
  c4_console :: "console_entry list"

definition chapter4_init :: chapter4 where
  "chapter4_init =
     \<lparr> PA_BASELINE = \<lparr> b_total_commuters = Some (Fin 0), current_emissions_tons = Some (Fin 0),
                         drive_alone_pct = Some (Fin 0), b_transit_pct = Some (Fin 0),
                         wfh_pct = Some (Fin 0) \<rparr>,
       transitShiftPct = Fin 0, wfhIncreasePct = Fin 0, c4_dataLoaded = False,
       predefinedScenarios = None, c4_console = [] \<rparr>"

definition chapter4_fallback :: pa_baseline where
  "chapter4_fallback =
     \<lparr> b_total_commuters = Some (Fin 6179069), current_emissions_tons = Some (Fin 2166258),
       drive_alone_pct = Some (Fin 47.1), b_transit_pct = Some (Fin 3.0),
       wfh_pct = Some (Fin 7.6) \<rparr>"

text \<open>The object assigned to \<open>PA_BASELINE\<close> in the \<open>try\<close> block, or the error thrown.\<close>

definition chapter4_baseline ::
  "summary_json option \<Rightarrow> scenarios_json option \<Rightarrow> js_error + pa_baseline" where
  "chapter4_baseline summaryData scenariosData =
     try_bind (deref summaryData) (\<lambda>summary.
     try_bind (deref scenariosData) (\<lambda>scenarios.
     try_bind (deref (current scenarios)) (\<lambda>cur.
     try_bind (deref (mode_split cur)) (\<lambda>split.
       Inr \<lparr> b_total_commuters = total_commuters summary,
             current_emissions_tons = emissions_tons cur,
             drive_alone_pct = ms_drive_alone_pct split,
             b_transit_pct = ms_transit_pct split,
             wfh_pct = ms_wfh_pct split \<rparr>))))"

definition chapter4_catch :: "js_error \<Rightarrow> chapter4 \<Rightarrow> chapter4" where
  "chapter4_catch error s =
     s\<lparr> c4_console := c4_console s @ [(''Error loading PA data:'', error)],
        PA_BASELINE := chapter4_fallback,
        c4_dataLoaded := True \<rparr>"

definition chapter4_onMount ::
  "summary_json fetched \<Rightarrow> scenarios_json fetched \<Rightarrow> chapter4 \<Rightarrow> chapter4" where
  "chapter4_onMount summaryResponse scenariosResponse s =
     (case await_json summaryResponse of
        Inl error \<Rightarrow> chapter4_catch error s
      | Inr summaryData \<Rightarrow>
     (case await_json scenariosResponse of
        Inl error \<Rightarrow> chapter4_catch error s
      | Inr scenariosData \<Rightarrow>
          let s1 = s\<lparr> predefinedScenarios := scenariosData \<rparr>
          in (case chapter4_baseline summaryData scenariosData of
                Inl error \<Rightarrow> chapter4_catch error s1
              | Inr baseline \<Rightarrow> s1\<lparr> PA_BASELINE := baseline, c4_dataLoaded := True \<rparr>)))"

definition chapter4_view :: "chapter4 \<Rightarrow> view" where
  "chapter4_view s = (if \<not> c4_dataLoaded s then LoadingState else ChapterContent)"

section \<open>Chapter 5: the county case studies\<close>

record comparison =
  commuteVsPA :: jsnum
  transitVsPA :: jsnum
  co2VsPA :: jsnum

record CountyCaseStudy =
  cs_name :: string
  location :: string
  avgCommute :: jsnum
  cs_transitBikeWalkPct :: jsnum
  cs_co2PerCapita :: jsnum
  whyItWorks :: string
  keyFeatures :: "string list"
  cs_comparison :: comparison

record PAStats =
  pa_avgCommuteMinutes :: jsnum
  transitBikeWalkPct :: jsnum
  co2PerCapita :: jsnum

record chapter5 =
  paStats :: PAStats
  caseStudies :: "CountyCaseStudy list"
  expandedCounty :: "string option"
  c5_dataLoaded :: bool
  c5_console :: "console_entry list"

definition initial_caseStudies :: "CountyCaseStudy list" where
  "initial_caseStudies =
     [\<lparr> cs_name = ''Centre County'', location = ''State College'',
         avgCommute = Fin 18.2, cs_transitBikeWalkPct = Fin 22, cs_co2PerCapita = Fin 1.8,
         whyItWorks = ''Compact university town with strong bike infrastructure'',
         keyFeatures = [''University campus promotes walkability'',
                        ''Extensive bike lane network'',
                        ''Compact urban design'',
                        ''Strong transit connections''],
         cs_comparison = \<lparr> commuteVsPA = Fin (- 33.3), transitVsPA = Fin 100,
                            co2VsPA = Fin (- 33.3) \<rparr> \<rparr>,
      \<lparr> cs_name = ''Montgomery County'', location = ''Philadelphia Suburbs'',
         avgCommute = Fin 24.5, cs_transitBikeWalkPct = Fin 18, cs_co2PerCapita = Fin 2.1,
         whyItWorks = ''Strong SEPTA connections reduce car dependency'',
         keyFeatures = [''Park-and-ride facilities at suburban stations'',
                        ''Regional rail network access'',
                        ''Bus rapid transit options'',
                        ''Mixed-use development near stations''],
         cs_comparison = \<lparr> commuteVsPA = Fin (- 10.3), transitVsPA = Fin 63.6,
                            co2VsPA = Fin (- 22.2) \<rparr> \<rparr>,
      \<lparr> cs_name = ''Centre City Philadelphia'', location = ''Philadelphia'',
         avgCommute = Fin 28.0, cs_transitBikeWalkPct = Fin 65, cs_co2PerCapita = Fin 1.5,
         whyItWorks = ''Density + transit = lower emissions per person'',
         keyFeatures = [''Walk/bike/transit: 65%'',
                        ''High population density'',
                        ''Comprehensive transit network'',
                        ''Mixed-use zoning''],
         cs_comparison = \<lparr> commuteVsPA = Fin 2.6, transitVsPA = Fin 490.9,
                            co2VsPA = Fin (- 44.4) \<rparr> \<rparr>]"

definition initial_paStats :: PAStats where
  "initial_paStats =
     \<lparr> pa_avgCommuteMinutes = Fin 27.3, transitBikeWalkPct = Fin 11, co2PerCapita = Fin 2.7 \<rparr>"

definition chapter5_init :: chapter5 where
  "chapter5_init =
     \<lparr> paStats = initial_paStats, caseStudies = initial_caseStudies, expandedCounty = None,
       c5_dataLoaded = False, c5_console = [] \<rparr>"

definition pct_diff :: "jsnum \<Rightarrow> jsnum \<Rightarrow> jsnum" where
  "pct_diff a b = jmul (jdiv (jsub a b) b) (Fin 100)"

definition recalculate :: "PAStats \<Rightarrow> CountyCaseStudy \<Rightarrow> CountyCaseStudy" where
  "recalculate st c =
     (let commuteDiff = pct_diff (avgCommute c) (pa_avgCommuteMinutes st);
          transitDiff = pct_diff (cs_transitBikeWalkPct c) (transitBikeWalkPct st);
          co2Diff = pct_diff (cs_co2PerCapita c) (co2PerCapita st)
      in c\<lparr> cs_comparison := \<lparr> commuteVsPA = commuteDiff, transitVsPA = transitDiff,
                                 co2VsPA = co2Diff \<rparr> \<rparr>)"

text \<open>The statistics built by the \<open>try\<close> block, or the error thrown.\<close>

definition chapter5_load ::
  "summary_json fetched \<Rightarrow> scenarios_json fetched \<Rightarrow> js_error + PAStats" where
  "chapter5_load summaryResponse scenariosResponse =
     try_bind (await_json summaryResponse) (\<lambda>summaryData.
     try_bind (deref summaryData) (\<lambda>summary.
       let nonDriveAlonePct =
             jadd (jadd (or_num (sum_transit_pct summary) (Fin 0))
                        (or_num (sum_wfh_pct summary) (Fin 0)))
                  (or_num (sum_bike_walk_pct summary) (Fin 0))
       in
     try_bind (await_json scenariosResponse) (\<lambda>scenariosData.
     try_bind (deref scenariosData) (\<lambda>scenarios.
       let totalCommuters' = or_num (total_commuters summary) (Fin 6179069);
           annualCO2Tons' =
             or_num (case current scenarios of None \<Rightarrow> None | Some c \<Rightarrow> emissions_tons c) (Fin 0);
           estimatedCO2PerCapita = jdiv annualCO2Tons' totalCommuters'
       in Inr \<lparr> pa_avgCommuteMinutes = or_num (avg_commute_minutes summary) (Fin 27.3),
                 transitBikeWalkPct = or_else nonDriveAlonePct (Fin 11),
                 co2PerCapita = or_else estimatedCO2PerCapita (Fin 2.7) \<rparr>))))"

definition chapter5_onMount ::
  "summary_json fetched \<Rightarrow> scenarios_json fetched \<Rightarrow> chapter5 \<Rightarrow> chapter5" where
  "chapter5_onMount summaryResponse scenariosResponse s =
     (case chapter5_load summaryResponse scenariosResponse of
        Inr st \<Rightarrow>
          s\<lparr> paStats := st, caseStudies := map (recalculate st) (caseStudies s),
             c5_dataLoaded := True \<rparr>
      | Inl error \<Rightarrow>
          s\<lparr> c5_console := c5_console s @ [(''Error loading PA data:'', error)],
             c5_dataLoaded := True \<rparr>)"

definition chapter5_view :: "chapter5 \<Rightarrow> view" where
  "chapter5_view s = (if \<not> c5_dataLoaded s then LoadingState else ChapterContent)"

section \<open>The commute inputs of the two calculators\<close>

text \<open>
  The attributes of an \<open>input\<close> element of the markup: its kind and the bounds and
  step it declares. A value lies within the bounds of a control when it is neither below
  the minimum nor above the maximum the control declares.
\<close>

datatype input_type = range_input | number_input

record input_control =
  input_id :: string
  input_kind :: input_type
  attr_min :: real
  attr_max :: real
  attr_step :: real

definition within_bounds :: "input_control \<Rightarrow> real \<Rightarrow> bool" where
  "within_bounds c v = (attr_min c \<le> v \<and> v \<le> attr_max c)"

definition commute_input :: input_control where
  "commute_input =
     \<lparr> input_id = ''commute-input'', input_kind = range_input,
       attr_min = 5, attr_max = 90, attr_step = 1 \<rparr>"

definition commute_minutes_input :: input_control where
  "commute_minutes_input =
     \<lparr> input_id = ''commute-minutes'', input_kind = number_input,
       attr_min = 1, attr_max = 120, attr_step = 1 \<rparr>"

definition days_per_week_input :: input_control where
  "days_per_week_input =
     \<lparr> input_id = ''days-per-week'', input_kind = number_input,
       attr_min = 1, attr_max = 7, attr_step = 1 \<rparr>"

text \<open>A load fails when the promise of \<open>fetch\<close> or the promise of \<open>json()\<close> rejects.\<close>

fun fetch_failed :: "'a fetched \<Rightarrow> bool" where
  "fetch_failed FetchRejected = True"
| "fetch_failed JsonRejected = True"
| "fetch_failed (Json v) = False"

section \<open>The page: scroll-driven and programmatic navigation\<close>

text \<open>The chapter list of the navigation store: identifier, title and subtitle.\<close>

record chapter_entry =
  chapter_id :: int
  title :: string
  subtitle :: string

definition chapters :: "chapter_entry list" where
  "chapters =
     [\<lparr> chapter_id = 1, title = ''The Time Thief'',
         subtitle = ''How Commutes Steal Your Life'' \<rparr>,
      \<lparr> chapter_id = 2, title = ''The Money Drain'',
         subtitle = ''The True Cost of Getting to Work'' \<rparr>,
      \<lparr> chapter_id = 3, title = ''The Carbon Footprint'',
         subtitle = ''Environmental Impact of Commuting'' \<rparr>,
      \<lparr> chapter_id = 4, title = ''Geography of Inequality'',
         subtitle = ''Where You Live Matters'' \<rparr>,
      \<lparr> chapter_id = 5, title = ''Pennsylvania Counties Leading the Way'',
         subtitle = ''Show What's Working'' \<rparr>,
      \<lparr> chapter_id = 6, title = ''Your Pennsylvania Choice'',
         subtitle = ''Personal Action Calculator'' \<rparr>,
      \<lparr> chapter_id = 7, title = ''Productivity Paradox'',
         subtitle = ''The Hidden Economic Cost'' \<rparr>,
      \<lparr> chapter_id = 8, title = ''Remote Work Revolution'',
         subtitle = ''A New Way Forward'' \<rparr>,
      \<lparr> chapter_id = 9, title = ''Cities That Got It Right'',
         subtitle = ''Success Stories'' \<rparr>,
      \<lparr> chapter_id = 10, title = ''Your Choice, Your Impact'',
         subtitle = ''Take Action Today'' \<rparr>]"

text \<open>
  A chapter section of the page, as the layout places it: the distance of its top edge
  from the top of the document, and its height. Layout lengths are finite numbers and are
  modelled as reals. \<open>getBoundingClientRect\<close> gives the top edge relative to the viewport.
\<close>

record section_element =
  offsetTop :: real
  offsetHeight :: real

record DOMRect =
  rect_top :: real
  rect_height :: real

definition getBoundingClientRect :: "real \<Rightarrow> section_element \<Rightarrow> DOMRect" where
  "getBoundingClientRect window_scrollY element =
     \<lparr> rect_top = offsetTop element - window_scrollY, rect_height = offsetHeight element \<rparr>"

text \<open>
  The state of the page: the six section variables, the flag, the store, the menu of the
  navigation component, the window, the clock in milliseconds, the due times of the
  pending timeouts (each callback sets \<open>scrolling\<close> to false) and the indexes of the
  sections on which a smooth scroll has been started.
\<close>

record page =
  chapter1Element :: "section_element option"
  chapter2Element :: "section_element option"
  chapter3Element :: "section_element option"
  chapter4Element :: "section_element option"
  chapter5Element :: "section_element option"
  chapter6Element :: "section_element option"
  scrolling :: bool
  currentChapter :: int
  showMenu :: bool
  scrollY :: real
  innerHeight :: real
  now :: nat
  timeouts :: "nat list"
  scrollIntoView_calls :: "int list"

definition chapterElements :: "page \<Rightarrow> section_element option list" where
  "chapterElements s =
     [chapter1Element s, chapter2Element s, chapter3Element s,
      chapter4Element s, chapter5Element s, chapter6Element s]"

text \<open>\<open>array[index]\<close>: \<open>undefined\<close> outside the array.\<close>

definition element_at :: "'a option list \<Rightarrow> int \<Rightarrow> 'a option" where
  "element_at xs index =
     (if 0 \<le> index \<and> nat index < length xs then xs ! nat index else None)"

text \<open>The test of the loop body: the midpoint of the viewport lies in the section.\<close>

definition contains_midpoint :: "page \<Rightarrow> section_element \<Rightarrow> bool" where
  "contains_midpoint s element =
     (let scrollPosition = scrollY s + innerHeight s / 2;
          rect = getBoundingClientRect (scrollY s) element;
          elementTop = rect_top rect + scrollY s;
          elementBottom = elementTop + rect_height rect
      in scrollPosition \<ge> elementTop \<and> scrollPosition < elementBottom)"

fun handleScroll_loop :: "nat \<Rightarrow> section_element option list \<Rightarrow> page \<Rightarrow> page" where
  "handleScroll_loop i [] s = s"
| "handleScroll_loop i (element # rest) s =
     (case element of
        None \<Rightarrow> handleScroll_loop (Suc i) rest s
      | Some e \<Rightarrow>
          if contains_midpoint s e then s\<lparr> currentChapter := int i + 1 \<rparr>
          else handleScroll_loop (Suc i) rest s)"

definition handleScroll :: "page \<Rightarrow> page" where
  "handleScroll s = (if scrolling s then s else handleScroll_loop 0 (chapterElements s) s)"

definition scrollToChapter :: "int \<Rightarrow> page \<Rightarrow> page" where
  "scrollToChapter index s =
     (case element_at (chapterElements s) index of
        None \<Rightarrow> s
      | Some element \<Rightarrow>
          s\<lparr> scrolling := True,
             scrollIntoView_calls := scrollIntoView_calls s @ [index],
             timeouts := timeouts s @ [now s + 1000] \<rparr>)"

definition handleNavigate :: "int \<Rightarrow> page \<Rightarrow> page" where
  "handleNavigate chapterId s = scrollToChapter (chapterId - 1) s"

text \<open>The navigation component.\<close>

definition goToChapter :: "int \<Rightarrow> page \<Rightarrow> page" where
  "goToChapter chapterId s =
     handleNavigate chapterId (s\<lparr> currentChapter := chapterId, showMenu := False \<rparr>)"

definition nextChapter :: "page \<Rightarrow> page" where
  "nextChapter s =
     (let current = currentChapter s
      in if current < 6 then goToChapter (current + 1) s else s)"

definition prevChapter :: "page \<Rightarrow> page" where
  "prevChapter s =
     (let current = currentChapter s
      in if current > 1 then goToChapter (current - 1) s else s)"

text \<open>
  The event loop. Events arrive with the time at which they are handled. A timeout that
  is due when an event arrives has run before it: it is removed and the flag is false.
  A scroll event carries the new scroll offset of the window.
\<close>

datatype event = Scroll real | MenuClick int | NextClick | PrevClick | StartExploring

definition advance :: "nat \<Rightarrow> page \<Rightarrow> page" where
  "advance t s =
     (let due = filter (\<lambda>d. d \<le> t) (timeouts s)
      in s\<lparr> now := t,
            timeouts := filter (\<lambda>d. \<not> d \<le> t) (timeouts s),
            scrolling := (if due = [] then scrolling s else False) \<rparr>)"

fun dispatch :: "event \<Rightarrow> page \<Rightarrow> page" where
  "dispatch (Scroll y) s = handleScroll (s\<lparr> scrollY := y \<rparr>)"
| "dispatch (MenuClick chapterId) s = goToChapter chapterId s"
| "dispatch NextClick s = nextChapter s"
| "dispatch PrevClick s = prevChapter s"
| "dispatch StartExploring s = scrollToChapter 0 s"

fun run :: "(nat \<times> event) list \<Rightarrow> page \<Rightarrow> page" where
  "run [] s = s"
| "run ((t, e) # es) s = run es (dispatch e (advance t s))"

text \<open>The page of the test fixture: three sections of height 1000 stacked from the top.\<close>

definition fixture :: page where
  "fixture =
     \<lparr> chapter1Element = Some \<lparr> offsetTop = 0, offsetHeight = 1000 \<rparr>,
       chapter2Element = Some \<lparr> offsetTop = 1000, offsetHeight = 1000 \<rparr>,
       chapter3Element = Some \<lparr> offsetTop = 2000, offsetHeight = 1000 \<rparr>,
       chapter4Element = None, chapter5Element = None, chapter6Element = None,
       scrolling = False, currentChapter = 1, showMenu = False,
       scrollY = 0, innerHeight = 800, now = 0, timeouts = [], scrollIntoView_calls = [] \<rparr>"

section \<open>Properties of the calculators\<close>

lemma rnd_Fin: "\<bar>r\<bar> < overflow_threshold \<Longrightarrow> rnd r = Fin r"
  by (auto simp: rnd_def)

lemma overflow_threshold_large: "10 ^ 9 < overflow_threshold"
  unfolding overflow_threshold_def by simp

lemma rnd_small: "\<bar>r\<bar> < 10 ^ 9 \<Longrightarrow> rnd r = Fin r"
  using overflow_threshold_large by (simp add: rnd_Fin)

lemma userAnnualHours_value:
  assumes "5 \<le> m" "m \<le> 120" "userCommuteMinutes s = Fin m"
  shows "userAnnualHours s = Fin (m * 2 * 5 * 50 / 60)"
  using assms by (simp add: userAnnualHours_def rnd_small)

lemma userAnnualCO2_value:
  assumes "5 \<le> m" "m \<le> 120" "userCommuteMinutes s = Fin m"
  shows "userAnnualCO2 s = Fin (m * 0.5 * 2 * 250 * 8.887 / 25 / 1000)"
  using assms by (simp add: userAnnualCO2_def rnd_small)

lemma hoursGained_value:
  assumes "5 \<le> m" "m \<le> 120" "commuteMinutes s = Fin m"
  shows "hoursGained (option2 s) = Fin (m * 2 * 2 * 50 / 60)"
  using assms by (simp add: option2_def rnd_small)

lemma annualMiles_value:
  assumes "5 \<le> m" "m \<le> 120" "1 \<le> d" "d \<le> 7"
    and "commuteMinutes s = Fin m" "daysPerWeek s = Fin d"
  shows "\<exists>p. annualMiles s = Fin (p * 50) \<and> 0 \<le> p \<and> p \<le> 840"
proof -
  define p where "p = m * d"
  have lo: "0 \<le> p" using assms by (simp add: p_def)
  have "m * d \<le> 120 * 7" using assms by (intro mult_mono) simp_all
  hence hi: "p \<le> 840" by (simp add: p_def)
  have r1: "rnd p = Fin p" using lo hi by (intro rnd_small) simp
  have r2: "rnd (p * 50) = Fin (p * 50)" using lo hi by (intro rnd_small) simp
  have "dailyMiles s = Fin m" using assms
    by (simp add: dailyMiles_def commuteDistance_def AVG_SPEED_MPH_def rnd_small)
  hence "annualMiles s = Fin (p * 50)"
    using assms r1 r2 by (simp add: annualMiles_def flip: p_def)
  thus ?thesis using lo hi by blast
qed

lemma currentAnnualCO2_nonneg_finite:
  assumes "5 \<le> m" "m \<le> 120" "1 \<le> d" "d \<le> 7"
    and "commuteMinutes s = Fin m" "daysPerWeek s = Fin d"
  shows "nonneg_finite (currentAnnualCO2 s)"
proof -
  obtain p where p: "annualMiles s = Fin (p * 50)" "0 \<le> p" "p \<le> 840"
    using annualMiles_value[OF assms] by blast
  obtain e where e: "EMISSIONS_PER_MODE (currentMode s) = Fin e" "0 \<le> e" "e \<le> 2580"
    by (cases "currentMode s") simp_all
  define q where "q = p * 50 / 10000"
  have q: "0 \<le> q" "q \<le> 5" using p by (simp_all add: q_def)
  have r1: "rnd q = Fin q" using q by (intro rnd_small) simp
  define w where "w = e * q"
  have w0: "0 \<le> w" using q e by (simp add: w_def)
  have "e * q \<le> 2580 * 5" using q e by (intro mult_mono) simp_all
  hence w1: "w \<le> 12900" by (simp add: w_def)
  have r2: "rnd w = Fin w" using w0 w1 by (intro rnd_small) simp
  have r3: "rnd (w / 1000) = Fin (w / 1000)" using w0 w1 by (intro rnd_small) simp
  have "jdiv (annualMiles s) (Fin 10000) = Fin q"
    using r1 by (simp add: p q_def)
  hence "currentAnnualCO2 s = Fin (w / 1000)"
    using r2 r3 e(1) by (simp add: currentAnnualCO2_def flip: w_def)
  thus ?thesis using w0 by simp
qed

text \<open>
  Claim C1. For every commute time between 5 and 120 minutes and every number of days
  per week between 1 and 7, whatever the commute mode and the baseline averages held in
  the state, the annual hours of Chapter 1 (\<open>userAnnualHours\<close>), the hours gained of
  Chapter 6 (\<open>option2.hoursGained\<close>), the annual CO2 of Chapter 1 (\<open>userAnnualCO2\<close>) and
  the annual CO2 of Chapter 6 (\<open>currentAnnualCO2\<close>) are finite numbers that are not
  negative.
\<close>

theorem calculators_nonneg_finite:
  assumes "5 \<le> m1" "m1 \<le> 120" "5 \<le> m6" "m6 \<le> 120" "1 \<le> d" "d \<le> 7"
    and "userCommuteMinutes s1 = Fin m1"
    and "commuteMinutes s6 = Fin m6" "daysPerWeek s6 = Fin d"
  shows "nonneg_finite (userAnnualHours s1) \<and> nonneg_finite (userAnnualCO2 s1)
       \<and> nonneg_finite (hoursGained (option2 s6)) \<and> nonneg_finite (currentAnnualCO2 s6)"
proof -
  have "nonneg_finite (userAnnualHours s1)"
    using assms by (simp add: userAnnualHours_value[of m1])
  moreover have "nonneg_finite (userAnnualCO2 s1)"
    using assms by (simp add: userAnnualCO2_value[of m1])
  moreover have "nonneg_finite (hoursGained (option2 s6))"
    using assms by (simp add: hoursGained_value[of m6])
  moreover have "nonneg_finite (currentAnnualCO2 s6)"
    using assms by (intro currentAnnualCO2_nonneg_finite[of m6 d]) simp_all
  ultimately show ?thesis by simp
qed

theorem calculators_nonneg_finite_witness:
  "nonneg_finite (userAnnualHours (chapter1_init\<lparr>userCommuteMinutes := Fin 90\<rparr>))
   \<and> nonneg_finite (userAnnualCO2 (chapter1_init\<lparr>userCommuteMinutes := Fin 90\<rparr>))
   \<and> nonneg_finite (hoursGained (option2 (chapter6_init\<lparr>currentMode := carpool, daysPerWeek := Fin 7\<rparr>)))
   \<and> nonneg_finite (currentAnnualCO2 (chapter6_init\<lparr>currentMode := carpool, daysPerWeek := Fin 7\<rparr>))"
  using calculators_nonneg_finite
    [of 90 30 7 "chapter1_init\<lparr>userCommuteMinutes := Fin 90\<rparr>"
        "chapter6_init\<lparr>currentMode := carpool, daysPerWeek := Fin 7\<rparr>"]
  by (simp add: chapter1_init_def chapter6_init_def)

section \<open>Properties of the data loads\<close>

lemma await_json_failed: "fetch_failed r \<Longrightarrow> \<exists>e. await_json r = Inl e"
  by (cases r) (simp_all add: await_json_def)

lemma try_bind_Inl [simp]: "try_bind (Inl e) f = Inl e"
  by (simp add: try_bind_def)

lemma try_bind_Inr [simp]: "try_bind (Inr x) f = f x"
  by (simp add: try_bind_def)

lemma try_bind_fails_inner: "(\<And>x. \<exists>e. f x = Inl e) \<Longrightarrow> \<exists>e. try_bind m f = Inl e"
  by (cases m) simp_all

lemma chapter1_load_failed:
  assumes "fetch_failed summaryResponse \<or> fetch_failed scenariosResponse"
  shows "\<exists>e. chapter1_load summaryResponse scenariosResponse = Inl e"
proof (cases "fetch_failed summaryResponse")
  case True
  then obtain e where "await_json summaryResponse = Inl e" using await_json_failed by blast
  thus ?thesis by (simp add: chapter1_load_def)
next
  case False
  with assms obtain e where e: "await_json scenariosResponse = Inl e" using await_json_failed by blast
  show ?thesis unfolding chapter1_load_def
    by (rule try_bind_fails_inner) (simp add: e)
qed

text \<open>
  Claim C8. When a fetch of Chapter 1 fails or its body is not JSON, the statistics held
  in the state of Chapter 1 are the fallback constants: 6,179,069 commuters, 9.9 minutes,
  and an annual-hours-lost figure of exactly 509,773,192.
\<close>

theorem fallback_annualHoursLost:
  assumes "fetch_failed summaryResponse \<or> fetch_failed scenariosResponse"
  shows "totalCommuters (PA_STATS (chapter1_onMount summaryResponse scenariosResponse s)) = Some (Fin 6179069)
       \<and> avgCommuteMinutes (PA_STATS (chapter1_onMount summaryResponse scenariosResponse s)) = Some (Fin 9.9)
       \<and> annualHoursLost (PA_STATS (chapter1_onMount summaryResponse scenariosResponse s)) = Some (Fin 509773192)"
proof -
  obtain e where "chapter1_load summaryResponse scenariosResponse = Inl e"
    using chapter1_load_failed[OF assms] by blast
  thus ?thesis by (simp add: chapter1_onMount_def chapter1_fallback_def)
qed

theorem fallback_annualHoursLost_witness:
  "annualHoursLost (PA_STATS (chapter1_onMount FetchRejected JsonRejected chapter1_init)) = Some (Fin 509773192)"
  using fallback_annualHoursLost[of FetchRejected JsonRejected chapter1_init] by simp


lemma chapter6_load_failed:
  assumes "fetch_failed summaryResponse \<or> fetch_failed scenariosResponse"
  shows "\<exists>e. chapter6_load summaryResponse scenariosResponse = Inl e"
proof (cases "fetch_failed summaryResponse")
  case True
  then obtain e where "await_json summaryResponse = Inl e" using await_json_failed by blast
  thus ?thesis by (simp add: chapter6_load_def)
next
  case False
  with assms obtain e where e: "await_json scenariosResponse = Inl e" using await_json_failed by blast
  show ?thesis unfolding chapter6_load_def
    by (rule try_bind_fails_inner) (simp add: e)
qed

lemma chapter5_load_failed:
  assumes "fetch_failed summaryResponse \<or> fetch_failed scenariosResponse"
  shows "\<exists>e. chapter5_load summaryResponse scenariosResponse = Inl e"
proof (cases "fetch_failed summaryResponse")
  case True
  then obtain e where "await_json summaryResponse = Inl e" using await_json_failed by blast
  thus ?thesis by (simp add: chapter5_load_def)
next
  case False
  with assms obtain e where e: "await_json scenariosResponse = Inl e" using await_json_failed by blast
  show ?thesis unfolding chapter5_load_def
    by (rule try_bind_fails_inner, rule try_bind_fails_inner) (simp add: e Let_def)
qed

lemma chapter2_load_failed:
  assumes "fetch_failed mapDataResponse \<or> fetch_failed emissionsResponse \<or> fetch_failed metroResponse"
  shows "\<exists>e. chapter2_load mapDataResponse emissionsResponse metroResponse = Inl e"
proof -
  consider (a) "fetch_failed mapDataResponse" | (b) "fetch_failed emissionsResponse"
    | (c) "fetch_failed metroResponse" using assms by blast
  thus ?thesis
  proof cases
    case a
    then obtain e where "await_json mapDataResponse = Inl e" using await_json_failed by blast
    thus ?thesis by (simp add: chapter2_load_def)
  next
    case b
    then obtain e where e: "await_json emissionsResponse = Inl e" using await_json_failed by blast
    show ?thesis unfolding chapter2_load_def
      by (rule try_bind_fails_inner) (simp add: e)
  next
    case c
    then obtain e where e: "await_json metroResponse = Inl e" using await_json_failed by blast
    show ?thesis unfolding chapter2_load_def
      by (rule try_bind_fails_inner, rule try_bind_fails_inner) (simp add: e)
  qed
qed

lemma chapter4_onMount_failed:
  assumes "fetch_failed summaryResponse \<or> fetch_failed scenariosResponse"
  shows "\<exists>e. chapter4_onMount summaryResponse scenariosResponse s = chapter4_catch e s"
proof (cases "fetch_failed summaryResponse")
  case True
  then obtain e where "await_json summaryResponse = Inl e" using await_json_failed by blast
  thus ?thesis by (auto simp add: chapter4_onMount_def)
next
  case False
  with assms obtain e where e: "await_json scenariosResponse = Inl e" using await_json_failed by blast
  show ?thesis
    by (cases "await_json summaryResponse") (auto simp add: chapter4_onMount_def e)
qed

text \<open>The county lists of the metro table are not empty, so each has a first county.\<close>

lemma metroToCounties_nonempty: "\<forall>(name, counties)\<in>set metroToCounties. counties \<noteq> []"
  by (simp add: metroToCounties_def)

lemma renderMap_keeps:
  "countyData (renderMap s) = countyData s" "c2_dataLoaded (renderMap s) = c2_dataLoaded s"
  "c2_console (renderMap s) = c2_console s"
  by (simp_all add: renderMap_def Let_def split: option.splits)

text \<open>
  Claim C4, as amended. When a fetch fails or its body is not JSON, every chapter
  catches the error where it fetches and logs it. Chapters 1, 2 and 4 then assign
  hardcoded fallback constants, Chapters 5 and 6 keep the hardcoded defaults their state
  starts with, and each of these five shows its content. Chapter 3 assigns nothing: its
  metro list stays empty, its chart container is never bound, and in place of its content
  it shows a paragraph telling the reader that the metro data could not be loaded.
\<close>

theorem data_load_failure_policy:
  assumes f12: "fetch_failed summaryResponse \<or> fetch_failed scenariosResponse"
    and f2: "fetch_failed mapDataResponse \<or> fetch_failed emissionsResponse \<or> fetch_failed metroResponse2"
    and f3: "fetch_failed metroResponse3"
  shows "(let s' = chapter1_onMount summaryResponse scenariosResponse s1
          in PA_STATS s' = chapter1_fallback \<and> chapter1_view s' = ChapterContent
           \<and> (\<exists>e. c1_console s' = c1_console s1 @ [(''Error loading PA data:'', e)]))
       \<and> (let s' = chapter2_onMount mapDataResponse emissionsResponse metroResponse2 s2
          in countyData s' = fallback_counties \<and> chapter2_view s' = ChapterContent
           \<and> (\<exists>e. c2_console s' = c2_console s2 @ [(''Error loading county data:'', e)]))
       \<and> (let s' = chapter4_onMount summaryResponse scenariosResponse s4
          in PA_BASELINE s' = chapter4_fallback \<and> chapter4_view s' = ChapterContent
           \<and> (\<exists>e. c4_console s' = c4_console s4 @ [(''Error loading PA data:'', e)]))
       \<and> (let s' = chapter5_onMount summaryResponse scenariosResponse chapter5_init
          in paStats s' = initial_paStats \<and> caseStudies s' = initial_caseStudies
           \<and> chapter5_view s' = ChapterContent
           \<and> (\<exists>e. c5_console s' = [(''Error loading PA data:'', e)]))
       \<and> (let s' = chapter6_onMount summaryResponse scenariosResponse chapter6_init
          in paAvgCO2PerPerson s' = Fin 2.6 \<and> commuteMinutes s' = Fin 30
           \<and> chapter6_view s' = ChapterContent
           \<and> (\<exists>e. c6_console s' = [(''Error loading PA data:'', e)]))
       \<and> (let s' = chapter3_onMount metroResponse3 chapter3_init
          in metroData s' = [] \<and> chartContainer s' = None
           \<and> chapter3_view s' = CouldNotLoadMessage
           \<and> (\<exists>e. c3_console s' = [(''Error loading metro data:'', e)]))"
proof -
  obtain e1 where e1: "chapter1_load summaryResponse scenariosResponse = Inl e1"
    using chapter1_load_failed[OF f12] by blast
  have c1: "let s' = chapter1_onMount summaryResponse scenariosResponse s1
          in PA_STATS s' = chapter1_fallback \<and> chapter1_view s' = ChapterContent
           \<and> (\<exists>e. c1_console s' = c1_console s1 @ [(''Error loading PA data:'', e)])"
    by (simp add: chapter1_onMount_def e1 chapter1_view_def)
  obtain e2 where e2: "chapter2_load mapDataResponse emissionsResponse metroResponse2 = Inl e2"
    using chapter2_load_failed[OF f2] by blast
  have c2: "let s' = chapter2_onMount mapDataResponse emissionsResponse metroResponse2 s2
          in countyData s' = fallback_counties \<and> chapter2_view s' = ChapterContent
           \<and> (\<exists>e. c2_console s' = c2_console s2 @ [(''Error loading county data:'', e)])"
    by (simp add: chapter2_onMount_def e2 chapter2_view_def renderMap_keeps)
  obtain e4 where e4: "chapter4_onMount summaryResponse scenariosResponse s4 = chapter4_catch e4 s4"
    using chapter4_onMount_failed[OF f12] by blast
  have c4: "let s' = chapter4_onMount summaryResponse scenariosResponse s4
          in PA_BASELINE s' = chapter4_fallback \<and> chapter4_view s' = ChapterContent
           \<and> (\<exists>e. c4_console s' = c4_console s4 @ [(''Error loading PA data:'', e)])"
    by (simp add: e4 chapter4_catch_def chapter4_view_def)
  obtain e5 where e5: "chapter5_load summaryResponse scenariosResponse = Inl e5"
    using chapter5_load_failed[OF f12] by blast
  have c5: "let s' = chapter5_onMount summaryResponse scenariosResponse chapter5_init
          in paStats s' = initial_paStats \<and> caseStudies s' = initial_caseStudies
           \<and> chapter5_view s' = ChapterContent
           \<and> (\<exists>e. c5_console s' = [(''Error loading PA data:'', e)])"
    by (simp add: chapter5_onMount_def e5 chapter5_view_def chapter5_init_def)
  obtain e6 where e6: "chapter6_load summaryResponse scenariosResponse = Inl e6"
    using chapter6_load_failed[OF f12] by blast
  have c6: "let s' = chapter6_onMount summaryResponse scenariosResponse chapter6_init
          in paAvgCO2PerPerson s' = Fin 2.6 \<and> commuteMinutes s' = Fin 30
           \<and> chapter6_view s' = ChapterContent
           \<and> (\<exists>e. c6_console s' = [(''Error loading PA data:'', e)])"
    by (simp add: chapter6_onMount_def e6 chapter6_view_def chapter6_init_def)
  obtain e3 where e3: "await_json metroResponse3 = Inl e3"
    using await_json_failed[OF f3] by blast
  have c3: "let s' = chapter3_onMount metroResponse3 chapter3_init
          in metroData s' = [] \<and> chartContainer s' = None
           \<and> chapter3_view s' = CouldNotLoadMessage
           \<and> (\<exists>e. c3_console s' = [(''Error loading metro data:'', e)])"
    by (simp add: chapter3_onMount_def e3 chapter3_view_def chapter3_init_def)
  from c1 c2 c4 c5 c6 c3 show ?thesis by blast
qed

text \<open>
  Without the exception made for Chapter 3 the policy does not hold: after a failed fetch
  that chapter holds no data and shows the could-not-load paragraph, not its content.
\<close>

theorem chapter3_failure_shows_message:
  "chapter3_view (chapter3_onMount FetchRejected chapter3_init) = CouldNotLoadMessage
   \<and> metroData (chapter3_onMount FetchRejected chapter3_init) = []
   \<and> chapter3_view (chapter3_onMount JsonRejected chapter3_init) \<noteq> ChapterContent"
  by (simp add: chapter3_onMount_def await_json_def chapter3_view_def chapter3_init_def)

theorem data_load_failure_policy_witness:
  "PA_STATS (chapter1_onMount FetchRejected (Json None) chapter1_init) = chapter1_fallback
   \<and> countyData (chapter2_onMount (Json None) JsonRejected (Json None) chapter2_init) = fallback_counties
   \<and> PA_BASELINE (chapter4_onMount FetchRejected (Json None) chapter4_init) = chapter4_fallback
   \<and> chapter5_view (chapter5_onMount FetchRejected (Json None) chapter5_init) = ChapterContent
   \<and> chapter6_view (chapter6_onMount FetchRejected (Json None) chapter6_init) = ChapterContent
   \<and> chapter3_view (chapter3_onMount JsonRejected chapter3_init) = CouldNotLoadMessage"
  using data_load_failure_policy
    [of FetchRejected "Json None" "Json None" JsonRejected "Json None" JsonRejected
        chapter1_init chapter2_init chapter4_init]
  by (simp add: Let_def)

section \<open>Properties of the commute inputs\<close>

text \<open>
  Claim C7, as amended. The commute control of Chapter 1 is a range input bounded to 5
  to 90 minutes; the commute control of Chapter 6 is a number input whose attributes
  declare 1 to 120 minutes. Neither declares a value above 120 within bounds, and only
  the control of Chapter 1 excludes the values below 5.
\<close>

theorem commute_input_bounds:
  "(within_bounds commute_input v \<longleftrightarrow> 5 \<le> v \<and> v \<le> 90)
   \<and> (within_bounds commute_minutes_input v \<longleftrightarrow> 1 \<le> v \<and> v \<le> 120)
   \<and> input_kind commute_input = range_input
   \<and> input_kind commute_minutes_input = number_input"
  by (simp add: within_bounds_def commute_input_def commute_minutes_input_def)

text \<open>
  The two controls are not both bounded to 5 to 120 minutes: the bounds of Chapter 6
  admit 3 minutes, which is below 5, and the bounds of Chapter 1 stop at 90, not at 120.
\<close>

theorem commute_input_bounds_counterexample:
  "within_bounds commute_minutes_input 3 \<and> (3::real) < 5
   \<and> attr_min commute_minutes_input \<noteq> 5 \<and> attr_max commute_input \<noteq> 120
   \<and> \<not> within_bounds commute_input 100"
  by (simp add: within_bounds_def commute_input_def commute_minutes_input_def)

section \<open>Properties of the navigation\<close>

lemma contains_midpoint_interval:
  "contains_midpoint s e \<longleftrightarrow>
     offsetTop e \<le> scrollY s + innerHeight s / 2
     \<and> scrollY s + innerHeight s / 2 < offsetTop e + offsetHeight e"
  by (simp add: contains_midpoint_def getBoundingClientRect_def Let_def)

lemma handleScroll_loop_first:
  assumes "i < length es" "es ! i = Some e" "contains_midpoint s e"
    and "\<forall>j<i. \<forall>e'. es ! j = Some e' \<longrightarrow> \<not> contains_midpoint s e'"
  shows "handleScroll_loop k es s = s\<lparr> currentChapter := int (k + i) + 1 \<rparr>"
  using assms
proof (induction es arbitrary: k i)
  case Nil
  then show ?case by simp
next
  case (Cons x xs)
  show ?case
  proof (cases i)
    case 0
    with Cons.prems show ?thesis by simp
  next
    case (Suc i')
    have skip: "handleScroll_loop k (x # xs) s = handleScroll_loop (Suc k) xs s"
    proof (cases x)
      case None
      then show ?thesis by simp
    next
      case (Some e')
      with Cons.prems(4) Suc have "\<not> contains_midpoint s e'" by auto
      with Some show ?thesis by simp
    qed
    have "handleScroll_loop (Suc k) xs s = s\<lparr> currentChapter := int (Suc k + i') + 1 \<rparr>"
    proof (rule Cons.IH)
      show "i' < length xs" using Cons.prems(1) Suc by simp
      show "xs ! i' = Some e" using Cons.prems(2) Suc by simp
      show "contains_midpoint s e" by (rule Cons.prems(3))
      show "\<forall>j<i'. \<forall>e'. xs ! j = Some e' \<longrightarrow> \<not> contains_midpoint s e'"
        using Cons.prems(4) Suc by auto
    qed
    with skip Suc show ?thesis by simp
  qed
qed

text \<open>
  Claim C2, as amended. While no programmatic navigation is in progress (the flag
  \<open>scrolling\<close> is false), the scroll handler sets the current chapter to the 1-based
  position of the section whose half-open interval from its top to its bottom contains
  the midpoint of the viewport, provided no earlier section contains the midpoint, which
  is so when the section is the only one that does. With sections covering 0 to 1000,
  1000 to 2000 and 2000 to 3000 and the midpoint at 1500, the current chapter becomes 2.
\<close>

theorem handleScroll_sets_containing_section:
  assumes "\<not> scrolling s"
    and "i < length (chapterElements s)" "chapterElements s ! i = Some e"
    and "offsetTop e \<le> scrollY s + innerHeight s / 2"
    and "scrollY s + innerHeight s / 2 < offsetTop e + offsetHeight e"
    and "\<forall>j<i. \<forall>e'. chapterElements s ! j = Some e' \<longrightarrow> \<not> contains_midpoint s e'"
  shows "currentChapter (handleScroll s) = int i + 1"
proof -
  have "contains_midpoint s e" using assms(4,5) by (simp add: contains_midpoint_interval)
  hence "handleScroll_loop 0 (chapterElements s) s = s\<lparr> currentChapter := int (0 + i) + 1 \<rparr>"
    using assms(2,3,6) by (intro handleScroll_loop_first) auto
  thus ?thesis using assms(1) by (simp add: handleScroll_def)
qed

lemma fixture_elements:
  "chapterElements (fixture\<lparr> scrollY := y \<rparr>) =
     [Some \<lparr> offsetTop = 0, offsetHeight = 1000 \<rparr>, Some \<lparr> offsetTop = 1000, offsetHeight = 1000 \<rparr>,
      Some \<lparr> offsetTop = 2000, offsetHeight = 1000 \<rparr>, None, None, None]"
  by (simp add: chapterElements_def fixture_def)

theorem handleScroll_sets_containing_section_witness:
  "currentChapter (handleScroll (fixture\<lparr> scrollY := 1100 \<rparr>)) = 2"
  using handleScroll_sets_containing_section
    [of "fixture\<lparr> scrollY := 1100 \<rparr>" 1 "\<lparr> offsetTop = 1000, offsetHeight = 1000 \<rparr>"]
  by (simp add: fixture_elements contains_midpoint_interval) (simp add: fixture_def)

text \<open>
  The proviso on the flag is needed. While a programmatic navigation is in progress, with
  the same sections and the midpoint at 1500, the handler returns at once and the current
  chapter keeps its value. The state is reached by choosing chapter 3 in the menu and scrolling
  within the second that follows.
\<close>

theorem handleScroll_during_navigation_counterexample:
  "scrollY (fixture\<lparr> scrollY := 1100, scrolling := True \<rparr>)
     + innerHeight (fixture\<lparr> scrollY := 1100, scrolling := True \<rparr>) / 2 = 1500
   \<and> currentChapter (handleScroll (fixture\<lparr> scrollY := 1100, scrolling := True \<rparr>)) = 1
   \<and> currentChapter (run [(0, MenuClick 3), (400, Scroll 1100)] fixture) = 3"
  by (simp add: handleScroll_def fixture_def goToChapter_def handleNavigate_def
        scrollToChapter_def element_at_def chapterElements_def advance_def)









text \<open>
  Without an earlier navigation the window is tight: the scroll event that arrives with
  the timeout updates the chapter.
\<close>

lemma updates_resume_after_timeout:
  "currentChapter (run [(1000, Scroll 1100)] (scrollToChapter 2 fixture)) = 2"
  by (simp add: scrollToChapter_def element_at_def chapterElements_def fixture_def advance_def
        handleScroll_def contains_midpoint_def getBoundingClientRect_def)

lemma element_at_beyond:
  assumes "6 \<le> index"
  shows "element_at (chapterElements s) index = None"
proof -
  have "length (chapterElements s) = 6" by (simp add: chapterElements_def)
  moreover have "\<not> nat index < 6" using assms by linarith
  ultimately show ?thesis by (simp add: element_at_def)
qed

lemma scrollToChapter_unbound:
  "element_at (chapterElements s) index = None \<Longrightarrow> scrollToChapter index s = s"
  by (simp add: scrollToChapter_def)

text \<open>
  Claim C9. For an index whose section is not bound, \<open>scrollToChapter\<close> returns the
  state as it is: no smooth scroll is started, no timeout is set, and a false flag stays
  false. The indexes 6 to 9 are such indexes in every state of the page, since it has six
  section variables, and they are reached from the menu, whose ten chapters have the
  identifiers 1 to 10 and navigate to the index one below.
\<close>

theorem scrollToChapter_unbound_noop:
  "(element_at (chapterElements s) index = None \<longrightarrow>
      scrollToChapter index s = s
      \<and> scrollIntoView_calls (scrollToChapter index s) = scrollIntoView_calls s
      \<and> timeouts (scrollToChapter index s) = timeouts s
      \<and> (\<not> scrolling s \<longrightarrow> \<not> scrolling (scrollToChapter index s)))
   \<and> (index \<in> {6, 7, 8, 9} \<longrightarrow> element_at (chapterElements s) index = None)
   \<and> (\<forall>c\<in>set chapters. 6 < chapter_id c \<longrightarrow> handleNavigate (chapter_id c) s = s)
   \<and> map chapter_id chapters = [1, 2, 3, 4, 5, 6, 7, 8, 9, 10]
   \<and> length (chapterElements s) = 6"
proof -
  have "\<forall>c\<in>set chapters. 6 < chapter_id c \<longrightarrow> handleNavigate (chapter_id c) s = s"
    by (auto simp: handleNavigate_def intro!: scrollToChapter_unbound element_at_beyond)
  moreover have "index \<in> {6, 7, 8, 9} \<longrightarrow> element_at (chapterElements s) index = None"
    by (auto intro: element_at_beyond)
  moreover have "map chapter_id chapters = [1, 2, 3, 4, 5, 6, 7, 8, 9, 10]"
    by (simp add: chapters_def)
  moreover have "length (chapterElements s) = 6" by (simp add: chapterElements_def)
  ultimately show ?thesis by (simp add: scrollToChapter_unbound)
qed

theorem scrollToChapter_unbound_noop_witness:
  "scrollToChapter 7 fixture = fixture \<and> scrollToChapter 3 fixture = fixture
   \<and> handleNavigate 10 fixture = fixture \<and> \<not> scrolling (scrollToChapter 9 fixture)"
proof -
  have a: "element_at (chapterElements fixture) 7 = None" "element_at (chapterElements fixture) 3 = None"
    "element_at (chapterElements fixture) 9 = None"
    by (simp_all add: element_at_def chapterElements_def fixture_def)
  have b: "\<not> scrolling fixture" by (simp add: fixture_def)
  have c: "\<lparr> chapter_id = 10, title = ''Your Choice, Your Impact'', subtitle = ''Take Action Today'' \<rparr> \<in> set chapters"
    by (simp add: chapters_def)
  show ?thesis
    using scrollToChapter_unbound_noop[of fixture 7] scrollToChapter_unbound_noop[of fixture 3]
      scrollToChapter_unbound_noop[of fixture 9] a b c
    by fastforce
qed

section \<open>Properties of the summary of Chapter 2\<close>

lemma jadd_not_finite: "\<not> is_finite x \<Longrightarrow> \<not> is_finite (jadd x y)"
  by (cases x; cases y) simp_all

lemma sum_from_not_finite:
  "\<not> is_finite x \<Longrightarrow> \<not> is_finite (foldl (\<lambda>sum c. jadd sum (co2_tons c)) x cs)"
  by (induction cs arbitrary: x) (simp_all add: jadd_not_finite)

lemma rnd_finite: "is_finite (rnd r) \<Longrightarrow> rnd r = Fin r"
  by (simp add: rnd_def split: if_splits)

lemma nonneg_finite_cases:
  assumes "nonneg_finite x"
  obtains v where "x = Fin v" "0 \<le> v"
  using assms by (cases x) simp_all

lemma prefix_sums:
  assumes "\<forall>c\<in>set cs. nonneg_finite (co2_tons c)" "0 \<le> a"
    and "foldl (\<lambda>sum c. jadd sum (co2_tons c)) (Fin a) cs = Fin t"
  shows "\<exists>p. foldl (\<lambda>sum c. jadd sum (co2_tons c)) (Fin a) (take k cs) = Fin p \<and> a \<le> p \<and> p \<le> t"
  using assms
proof (induction cs arbitrary: a k)
  case Nil
  then show ?case by simp
next
  case (Cons c cs)
  let ?f = "\<lambda>sum c. jadd sum (co2_tons c)"
  obtain v where v: "co2_tons c = Fin v" "0 \<le> v"
    using Cons.prems(1) by (auto elim: nonneg_finite_cases)
  have tot: "foldl ?f (rnd (a + v)) cs = Fin t" using Cons.prems(3) v by simp
  have "is_finite (rnd (a + v))"
  proof (rule ccontr)
    assume "\<not> is_finite (rnd (a + v))"
    hence "\<not> is_finite (foldl ?f (rnd (a + v)) cs)" by (rule sum_from_not_finite)
    thus False using tot by simp
  qed
  hence r: "rnd (a + v) = Fin (a + v)" by (rule rnd_finite)
  have ih: "\<exists>p. foldl ?f (Fin (a + v)) (take k' cs) = Fin p \<and> a + v \<le> p \<and> p \<le> t" for k'
    using Cons.IH[of "a + v" k'] Cons.prems(1,2) v tot r by simp
  show ?case
  proof (cases k)
    case 0
    from ih[of 0] have "a + v \<le> t" by simp
    with v 0 show ?thesis by simp
  next
    case (Suc k')
    from ih[of k'] obtain p where "foldl ?f (Fin (a + v)) (take k' cs) = Fin p" "a + v \<le> p" "p \<le> t"
      by blast
    with v Suc r show ?thesis by simp
  qed
qed

lemma is_digit_digit: "n < 10 \<Longrightarrow> is_digit (digit n)"
  unfolding is_digit_def digit_def by (rule nth_mem) simp

lemma dec_digits: "dec n \<noteq> [] \<and> list_all is_digit (dec n)"
proof (induction n rule: dec.induct)
  case (1 n)
  show ?case
  proof (cases "n < 10")
    case True
    thus ?thesis by (subst dec.simps, subst (2) dec.simps) (simp add: is_digit_digit)
  next
    case False
    have "is_digit (digit (n mod 10))" by (rule is_digit_digit) simp
    with False 1 show ?thesis
      by (subst dec.simps, subst (2) dec.simps) simp
  qed
qed

lemma is_digit_not_minus: "is_digit c \<Longrightarrow> c \<noteq> CHR ''-''"
  by (auto simp: is_digit_def)

lemma integer_numeral_dec: "integer_numeral (dec n)"
proof -
  from dec_digits[of n] obtain c cs where d: "dec n = c # cs" "list_all is_digit (c # cs)"
    by (cases "dec n") auto
  hence "c \<noteq> CHR ''-''" using is_digit_not_minus by simp
  with d show ?thesis by (simp add: integer_numeral_def)
qed


lemma fixed_digits_0_nonneg: "0 \<le> q \<Longrightarrow> fixed_digits 0 q = dec (nat \<lfloor>q + 1 / 2\<rfloor>)"
  by (simp add: fixed_digits_def Let_def)

lemma percent_rounds_below_101:
  fixes q :: real
  assumes "0 \<le> q" "q \<le> 1"
  shows "nat \<lfloor>q * 100 + 1 / 2\<rfloor> \<le> 100"
proof -
  define k where "k = \<lfloor>q * 100 + 1 / 2\<rfloor>"
  have "of_int k \<le> q * 100 + 1 / 2" unfolding k_def by (rule of_int_floor_le)
  moreover have "q * 100 + 1 / 2 < 101" using assms by simp
  ultimately have "real_of_int k < 101" by linarith
  hence "k < 101" by linarith
  hence "nat k \<le> 100" by linarith
  thus ?thesis by (simp add: k_def)
qed

lemma top10_of_finite_total:
  assumes nn: "\<forall>c\<in>set (countyData s). nonneg_finite (co2_tons c)"
    and fin: "is_finite (totalEmissions s)"
  shows "\<exists>n\<le>100. top10Percentage s = [Lit (dec n)]"
proof (cases "jgt (totalEmissions s) (Fin 0)")
  case False
  have "dec 0 = ''0''" by (subst dec.simps) (simp add: digit_def)
  with False show ?thesis by (auto simp: top10Percentage_def intro: exI[of _ 0])
next
  case True
  hence ne: "length (countyData s) > 0"
    by (auto simp: totalEmissions_def split: if_splits)
  obtain t where t: "totalEmissions s = Fin t" using fin by (cases "totalEmissions s") simp_all
  hence tpos: "0 < t" using True by simp
  have tot: "foldl (\<lambda>sum c. jadd sum (co2_tons c)) (Fin 0) (countyData s) = Fin t"
    using t ne by (simp add: totalEmissions_def sum_co2_def)
  obtain p where p: "foldl (\<lambda>sum c. jadd sum (co2_tons c)) (Fin 0)
                       (take (min 10 (length (countyData s))) (countyData s)) = Fin p"
    "0 \<le> p" "p \<le> t"
    using prefix_sums[OF nn _ tot, of "min 10 (length (countyData s))"] by auto
  have top: "top10Emissions s = Fin p"
    using p(1) ne by (simp add: top10Emissions_def sum_co2_def slice_def)
  define q where "q = p / t"
  have q: "0 \<le> q" "q \<le> 1" using p tpos by (simp_all add: q_def)
  have r1: "rnd q = Fin q" using q by (intro rnd_small) simp
  have r2: "rnd (q * 100) = Fin (q * 100)" using q by (intro rnd_small) simp
  have val: "jmul (jdiv (top10Emissions s) (totalEmissions s)) (Fin 100) = Fin (q * 100)"
    using tpos r1 r2 by (simp add: top t flip: q_def)
  have small: "\<bar>q * 100\<bar> < 10 ^ 21" using q by simp
  have "top10Percentage s = [Lit (dec (nat \<lfloor>q * 100 + 1 / 2\<rfloor>))]"
    using True q small by (simp add: top10Percentage_def val fixed_digits_0_nonneg)
  moreover have "nat \<lfloor>q * 100 + 1 / 2\<rfloor> \<le> 100"
    using q by (rule percent_rounds_below_101)
  ultimately show ?thesis by blast
qed

text \<open>
  Claim C10, as amended. \<open>top10Percentage\<close> is \<open>'0'\<close> whenever the county list is empty or
  the total of the emissions is 0. The top-10 sum reads the first \<open>min(10, length)\<close>
  records and no record past the end of the list. When the emissions of every county are
  finite and not negative and their total is finite, \<open>top10Percentage\<close> is the decimal
  numeral of an integer between 0 and 100.
\<close>

theorem top10Percentage_finite_numeral:
  "(countyData s = [] \<or> totalEmissions s = Fin 0 \<longrightarrow> top10Percentage s = [Lit ''0''])
   \<and> top10Emissions s = (if countyData s = [] then Fin 0 else sum_co2 (take 10 (countyData s)))
   \<and> length (slice 0 (min 10 (length (countyData s))) (countyData s))
        = min 10 (length (countyData s))
   \<and> min 10 (length (countyData s)) \<le> length (countyData s)
   \<and> ((\<forall>c\<in>set (countyData s). nonneg_finite (co2_tons c)) \<and> is_finite (totalEmissions s)
        \<longrightarrow> finite_numeral (top10Percentage s)
            \<and> (\<exists>n\<le>100. top10Percentage s = [Lit (dec n)]))"
proof -
  have a: "countyData s = [] \<or> totalEmissions s = Fin 0 \<longrightarrow> top10Percentage s = [Lit ''0'']"
    by (auto simp: top10Percentage_def totalEmissions_def)
  have b: "top10Emissions s = (if countyData s = [] then Fin 0 else sum_co2 (take 10 (countyData s)))"
    by (simp add: top10Emissions_def slice_def min_def)
  have c: "length (slice 0 (min 10 (length (countyData s))) (countyData s))
             = min 10 (length (countyData s))"
    by (simp add: slice_def)
  have d: "(\<forall>c\<in>set (countyData s). nonneg_finite (co2_tons c)) \<and> is_finite (totalEmissions s)
        \<longrightarrow> finite_numeral (top10Percentage s)
            \<and> (\<exists>n\<le>100. top10Percentage s = [Lit (dec n)])"
  proof (intro impI, elim conjE)
    assume nn: "\<forall>c\<in>set (countyData s). nonneg_finite (co2_tons c)"
      and fin: "is_finite (totalEmissions s)"
    from top10_of_finite_total[OF nn fin] obtain n where n: "n \<le> 100" "top10Percentage s = [Lit (dec n)]"
      by blast
    thus "finite_numeral (top10Percentage s) \<and> (\<exists>n\<le>100. top10Percentage s = [Lit (dec n)])"
      using integer_numeral_dec by auto
  qed
  from a b c d show ?thesis by simp
qed

text \<open>
  The summary is not always a finite numeral. With a
  county whose emissions are infinite the total is greater than 0, the ratio of the two
  infinite sums is NaN, and the string shown is \<open>NaN\<close>.
\<close>

theorem top10Percentage_NaN_counterexample:
  "top10Percentage (chapter2_init\<lparr> countyData := [infinite_county] \<rparr>) = [Num NaN]
   \<and> \<not> finite_numeral (top10Percentage (chapter2_init\<lparr> countyData := [infinite_county] \<rparr>))"
  by (simp add: top10Percentage_def totalEmissions_def top10Emissions_def sum_co2_def slice_def
        infinite_county_def plain_county_def chapter2_init_def)

lemma fallback_total:
  "totalEmissions (chapter2_init\<lparr> countyData := fallback_counties \<rparr>) = Fin 4566000"
  by (simp add: totalEmissions_def sum_co2_def fallback_counties_def plain_county_def rnd_small)

theorem top10Percentage_finite_numeral_witness:
  "finite_numeral (top10Percentage (chapter2_init\<lparr> countyData := fallback_counties \<rparr>))
   \<and> top10Percentage (chapter2_init\<lparr> countyData := [] \<rparr>) = [Lit ''0'']"
  using top10Percentage_finite_numeral[of "chapter2_init\<lparr> countyData := fallback_counties \<rparr>"]
    top10Percentage_finite_numeral[of "chapter2_init\<lparr> countyData := [] \<rparr>"]
  by (simp add: fallback_total) (simp add: fallback_counties_def plain_county_def)

lemma fallback_percentage:
  "top10Percentage (chapter2_init\<lparr> countyData := fallback_counties \<rparr>) = [Lit ''100'']"
  by (simp add: top10Percentage_def totalEmissions_def top10Emissions_def sum_co2_def slice_def
        fallback_counties_def plain_county_def rnd_small fixed_digits_def dec.simps digit_def)

text \<open>
  The emissions must not be negative either: with finite emissions that cancel, the total
  is positive and tiny, the ratio overflows, and the string shown is \<open>Infinity\<close>.
\<close>

lemma rnd_two_1000: "rnd (2 ^ 1000) = Fin (2 ^ 1000)"
  by (simp add: rnd_def overflow_threshold_def)

lemma rnd_two_minus_1000: "rnd (1 / 2 ^ 1000) = Fin (1 / 2 ^ 1000)"
  by (simp add: rnd_def overflow_threshold_def)

lemma top10Percentage_Infinity_example:
  "top10Percentage (chapter2_init\<lparr> countyData := cancelling_counties \<rparr>) = [Num PInf]"
  by (simp add: top10Percentage_def totalEmissions_def top10Emissions_def sum_co2_def slice_def
        cancelling_counties_def plain_county_def chapter2_init_def rnd_two_1000
        rnd_two_minus_1000 signed_inf_def numeral_eq_Suc)
     (simp add: rnd_def overflow_threshold_def signed_inf_def)

section \<open>Properties of the chart renderers\<close>

lemma renderMap_skipped:
  "mapContainer s = None \<or> countyData s = [] \<Longrightarrow> renderMap s = s"
  by (auto simp: renderMap_def split: option.splits)

lemma renderChart_skipped:
  "chartContainer s = None \<or> metroData s = [] \<Longrightarrow> renderChart s = s"
  by (auto simp: renderChart_def split: option.splits)

lemma renderMap_replaces:
  "mapContainer s = Some old \<Longrightarrow> countyData s \<noteq> [] \<Longrightarrow>
     renderMap s = s\<lparr> mapContainer := Some [map_svg (viewMode s) (countyData s)] \<rparr>"
  by (simp add: renderMap_def clear_innerHTML_def append_to_def)

lemma renderChart_replaces:
  "chartContainer s = Some old \<Longrightarrow> metroData s \<noteq> [] \<Longrightarrow>
     renderChart s = s\<lparr> chartContainer := Some [chart_svg (selectedMetro s) (metroData s)],
                        currentSvg := Some (chart_svg (selectedMetro s) (metroData s)) \<rparr>"
  by (simp add: renderChart_def clear_innerHTML_def append_to_def Let_def)

lemma renderMap_twice: "renderMap (renderMap s) = renderMap s"
proof (cases "mapContainer s = None \<or> countyData s = []")
  case True
  then show ?thesis by (simp add: renderMap_skipped)
next
  case False
  then obtain old where "mapContainer s = Some old" "countyData s \<noteq> []" by auto
  then show ?thesis
    by (simp add: renderMap_replaces[of _ old])
       (simp add: renderMap_def clear_innerHTML_def append_to_def)
qed

lemma renderChart_twice: "renderChart (renderChart s) = renderChart s"
proof (cases "chartContainer s = None \<or> metroData s = []")
  case True
  then show ?thesis by (simp add: renderChart_skipped)
next
  case False
  then obtain old where "chartContainer s = Some old" "metroData s \<noteq> []" by auto
  then show ?thesis
    by (simp add: renderChart_replaces[of _ old])
       (simp add: renderChart_def clear_innerHTML_def append_to_def Let_def)
qed

text \<open>
  Claim C5. A call of \<open>renderMap\<close> or of \<open>renderChart\<close> in which the container is not
  yet bound or the record list is empty returns the state as it is: the content of the
  container, and every other variable, is unchanged. The model of either function has no
  path on which an error is thrown.
\<close>

theorem render_skipped_silently:
  "(mapContainer s2 = None \<or> countyData s2 = [] \<longrightarrow>
      renderMap s2 = s2 \<and> mapContainer (renderMap s2) = mapContainer s2)
   \<and> (chartContainer s3 = None \<or> metroData s3 = [] \<longrightarrow>
      renderChart s3 = s3 \<and> chartContainer (renderChart s3) = chartContainer s3)"
  by (simp add: renderMap_skipped renderChart_skipped)

theorem render_skipped_silently_witness:
  "renderMap chapter2_init = chapter2_init
   \<and> mapContainer (renderMap (chapter2_init\<lparr> mapContainer := Some [createElementNS ''p''] \<rparr>))
       = Some [createElementNS ''p'']
   \<and> renderChart chapter3_init = chapter3_init
   \<and> chartContainer (renderChart (chapter3_init\<lparr> chartContainer := Some [createElementNS ''p''] \<rparr>))
       = Some [createElementNS ''p'']"
  using render_skipped_silently[of chapter2_init chapter3_init]
    render_skipped_silently
      [of "chapter2_init\<lparr> mapContainer := Some [createElementNS ''p''] \<rparr>"
          "chapter3_init\<lparr> chartContainer := Some [createElementNS ''p''] \<rparr>"]
  by (simp add: chapter2_init_def chapter3_init_def)

text \<open>
  Claim C6. For every record list and every content of the container, two calls of
  \<open>renderMap\<close>, or of \<open>renderChart\<close>, in succession leave the state that one call leaves.
  A call that is not skipped replaces whatever the container held by the one scene it has
  built from the state, so the container never holds marks of an earlier call.
\<close>

theorem render_twice_is_render_once:
  "renderMap (renderMap s2) = renderMap s2
   \<and> renderChart (renderChart s3) = renderChart s3
   \<and> (mapContainer s2 = Some old2 \<and> countyData s2 \<noteq> [] \<longrightarrow>
        mapContainer (renderMap s2) = Some [map_svg (viewMode s2) (countyData s2)])
   \<and> (chartContainer s3 = Some old3 \<and> metroData s3 \<noteq> [] \<longrightarrow>
        chartContainer (renderChart s3) = Some [chart_svg (selectedMetro s3) (metroData s3)])"
  by (simp add: renderMap_twice renderChart_twice renderMap_replaces renderChart_replaces)

theorem render_twice_is_render_once_witness:
  "mapContainer (renderMap (renderMap
       (chapter2_init\<lparr> countyData := fallback_counties,
                       mapContainer := Some [createElementNS ''p'', createElementNS ''svg''] \<rparr>)))
     = Some [map_svg total_mode fallback_counties]
   \<and> chartContainer (renderChart (renderChart
       (chapter3_init\<lparr> metroData := [example_metro],
                       chartContainer := Some [createElementNS ''p''] \<rparr>)))
     = Some [chart_svg None [example_metro]]"
  using render_twice_is_render_once
    [of "chapter2_init\<lparr> countyData := fallback_counties,
                         mapContainer := Some [createElementNS ''p'', createElementNS ''svg''] \<rparr>"
        "chapter3_init\<lparr> metroData := [example_metro],
                         chartContainer := Some [createElementNS ''p''] \<rparr>"
        "[createElementNS ''p'', createElementNS ''svg'']" "[createElementNS ''p'']"]
  by (simp add: chapter2_init_def chapter3_init_def fallback_counties_def)

end
